theory Spec2Isabelle
  imports Complex_Main "HOL-Library.AList" "HOL-Library.Multiset"
    "HOL-Library.Char_ord" "HOL-Library.List_Lexorder" "HOL-Library.Log_Nat"
begin

section \<open>Patient management service (main.py)\<close>

text \<open>
  The service keeps one JSON file, \<^verbatim>\<open>patients.json\<close>: an object that maps a patient id
  to an object of fields. Every handler loads the whole file, works on the Python dict and,
  when it mutates, writes the whole dict back.

  Conventions of this development.
  \<^item> A Python dict with string keys is an association list in insertion order with
    distinct keys: \<open>map_of d k\<close> is \<open>d[k]\<close>, \<open>AList.update k v d\<close> is \<open>d[k] = v\<close> (an
    existing key keeps its position, a new key goes to the end), \<open>AList.delete k d\<close> is
    \<open>del d[k]\<close>, \<open>map snd d\<close> is \<open>d.values()\<close>.
  \<^item> JSON values are null, integers, floats and strings; booleans, arrays and nested
    objects do not occur in the fields of a patient.
  \<^item> A Python float is a finite double and is modelled by the rational number it
    denotes. Where double arithmetic raises (\<open>**\<close> on overflow, \<open>/\<close> by a square that
    underflowed to zero, the conversion of an integer beyond the double range) the model
    raises too. The value of an arithmetic result is idealised: it is computed exactly,
    without the rounding to 53 bits and without infinities. The statements below hold
    whatever the digits of a computed \<open>bmi\<close> are, and the examples use inputs on which the
    exact and the double computation give the same \<open>bmi\<close>.
  \<^item> A handler is a function from the content of the file before the request to its
    outcome (an error or a response) paired with the content of the file afterwards.
\<close>

subsection \<open>JSON values and dicts\<close>

datatype jvalue = JNull | JInt int | JFloat rat | JStr string

type_synonym jobject = "(string \<times> jvalue) list"

type_synonym collection = "(string \<times> jobject) list"

text \<open>\<open>d.get(k, default)\<close>\<close>

definition dict_get :: "jobject \<Rightarrow> string \<Rightarrow> jvalue \<Rightarrow> jvalue" where
  "dict_get d k dflt = (case map_of d k of None \<Rightarrow> dflt | Some v \<Rightarrow> v)"

text \<open>\<open>k in d\<close>\<close>

definition dict_contains :: "(string \<times> 'v) list \<Rightarrow> string \<Rightarrow> bool" where
  "dict_contains d k = (map_of d k \<noteq> None)"

subsection \<open>Errors and responses\<close>

text \<open>
  \<open>HTTPException status detail\<close> is raised by the handlers themselves.
  \<open>RequestValidationError\<close> is what FastAPI answers (status 422) when the request body does
  not validate against the model of the handler's parameter; the handler does not run.
  \<open>ValidationError\<close> is pydantic's exception, raised when \<open>Patient(**kwargs)\<close> is called
  inside a handler. \<open>TypeError\<close> is raised by \<open>sorted\<close> on keys that do not compare.
  \<open>ZeroDivisionError\<close> and \<open>OverflowError\<close> are raised by the float arithmetic of the
  computed fields.
\<close>

datatype error =
    HTTPException nat string
  | RequestValidationError
  | ValidationError
  | TypeError
  | ZeroDivisionError
  | OverflowError

text \<open>\<open>NoResponse\<close> is a handler that falls off its end and returns \<open>None\<close>.\<close>

datatype response = JSONResponse nat string | NoResponse

subsection \<open>class Patient\<close>

record Patient =
  id_p :: string
  name :: string
  city :: string
  age :: int
  gender :: string
  height :: rat
  weight :: rat

text \<open>
  Reading a field of a given type from the keyword arguments, in pydantic's lax mode:
  a \<open>str\<close> field takes a string only; an \<open>int\<close> field takes an integer or a float without
  fractional part; a \<open>float\<close> field takes a float or an integer that converts to a double.
  (Lax mode also parses numeric strings; such strings are not modelled and count as
  ill-typed here.)

  \<open>float_overflow_bound\<close> is the least magnitude that rounds beyond the largest double
  (halfway between the largest double and \<open>2 ^ 1024\<close>); \<open>float_underflow_bound\<close> is the
  greatest magnitude that rounds to \<open>0.0\<close> (half the least positive double).
\<close>

definition float_overflow_bound :: rat where
  "float_overflow_bound = 2 ^ 1024 - 2 ^ 970"

definition float_underflow_bound :: rat where
  "float_underflow_bound = 1 / 2 ^ 1075"

fun as_str :: "jvalue \<Rightarrow> string option" where
  "as_str (JStr s) = Some s"
| "as_str _ = None"

fun as_int :: "jvalue \<Rightarrow> int option" where
  "as_int (JInt i) = Some i"
| "as_int (JFloat r) = (if of_int \<lfloor>r\<rfloor> = r then Some \<lfloor>r\<rfloor> else None)"
| "as_int _ = None"

text \<open>The nearest integer, a tie going to the even one.\<close>

definition round_half_even :: "rat \<Rightarrow> int" where
  "round_half_even x =
     (let f = \<lfloor>x\<rfloor>; d = x - of_int f
      in if d < 1 / 2 then f
         else if 1 / 2 < d then f + 1
         else if even f then f else f + 1)"

text \<open>
  \<open>float(i)\<close>: the nearest double, a tie going to the even mantissa of 53 bits; an integer
  beyond the double range does not convert.
\<close>

definition float_of_int :: "int \<Rightarrow> rat option" where
  "float_of_int i =
     (if float_overflow_bound \<le> \<bar>of_int i\<bar> then None
      else if \<bar>i\<bar> \<le> 2 ^ 53 then Some (of_int i)
      else
        let ulp = 2 ^ nat (bitlen \<bar>i\<bar> - 53)
        in Some (of_int (round_half_even (of_int i / of_int ulp) * ulp)))"

fun as_float :: "jvalue \<Rightarrow> rat option" where
  "as_float (JInt i) = float_of_int i"
| "as_float (JFloat r) = Some r"
| "as_float _ = None"

definition gender_literals :: "string list" where
  "gender_literals = [''male'', ''female'', ''other'']"

text \<open>A required field: the key must be present and its value well typed.\<close>

definition required :: "(jvalue \<Rightarrow> 'a option) \<Rightarrow> jobject \<Rightarrow> string \<Rightarrow> 'a option" where
  "required conv kwargs k = Option.bind (map_of kwargs k) conv"

text \<open>
  \<open>Patient(**kwargs)\<close>: every field is required (\<open>Field(...)\<close>), \<open>age\<close> has \<open>gt=0, lt=120\<close>,
  \<open>gender\<close> is a \<open>Literal\<close>, \<open>height\<close> and \<open>weight\<close> have \<open>gt=0\<close>. There is no constraint on
  \<open>name\<close> and \<open>city\<close> beyond being strings. Keys that are not fields of the model, among
  them \<open>bmi\<close> and \<open>verdict\<close>, are ignored.
\<close>

definition Patient_init :: "jobject \<Rightarrow> error + Patient" where
  "Patient_init kwargs =
     (case (required as_str kwargs ''id'', required as_str kwargs ''name'',
            required as_str kwargs ''city'', required as_int kwargs ''age'',
            required as_str kwargs ''gender'', required as_float kwargs ''height'',
            required as_float kwargs ''weight'') of
        (Some i, Some n, Some c, Some a, Some g, Some h, Some w) \<Rightarrow>
          if 0 < a \<and> a < 120 \<and> g \<in> set gender_literals \<and> 0 < h \<and> 0 < w
          then Inr \<lparr>id_p = i, name = n, city = c, age = a, gender = g, height = h, weight = w\<rparr>
          else Inl ValidationError
      | _ \<Rightarrow> Inl ValidationError)"

text \<open>
  Python's \<open>round(x, ndigits)\<close> on a float: the nearest multiple of \<open>10 ^ -ndigits\<close>, a tie
  going to the even multiple (\<open>round_half_even\<close> above gives the multiple).
\<close>

definition py_round :: "rat \<Rightarrow> nat \<Rightarrow> rat" where
  "py_round x ndigits = of_int (round_half_even (x * 10 ^ ndigits)) / 10 ^ ndigits"

text \<open>
  The computed fields. \<open>bmi_raises\<close> is the exception of \<open>self.weight / (self.height ** 2)\<close>:
  \<open>**\<close> raises \<open>OverflowError\<close> when the square is beyond the double range, and a square that
  underflows to \<open>0.0\<close> makes the division raise \<open>ZeroDivisionError\<close>. \<open>bmi\<close> and \<open>verdict\<close> are
  the values when nothing is raised.
\<close>

definition bmi_raises :: "Patient \<Rightarrow> error option" where
  "bmi_raises self =
     (if float_overflow_bound \<le> (height self)\<^sup>2 then Some OverflowError
      else if (height self)\<^sup>2 \<le> float_underflow_bound then Some ZeroDivisionError
      else None)"

definition bmi :: "Patient \<Rightarrow> rat" where
  "bmi self = py_round (weight self / (height self)\<^sup>2) 2"

definition verdict :: "Patient \<Rightarrow> string" where
  "verdict self =
     (if bmi self < 185 / 10 then ''Underweight''
      else if bmi self < 25 then ''Normal''
      else if bmi self < 30 then ''Overweight''
      else ''Obese'')"

text \<open>
  \<open>patient.model_dump(exclude=['id'])\<close>: the fields in the order of their declaration, then
  the computed fields, without \<open>id\<close>. (\<open>update_patient\<close> writes \<open>exclude='id'\<close>, a string
  where \<open>create_patient\<close> passes a list; the dump is the same, without \<open>id\<close>.)
  \<open>model_dump_exclude_id\<close> is the dict that results; \<open>model_dump\<close> is the call, which raises
  what the computed fields raise.
\<close>

definition model_dump_exclude_id :: "Patient \<Rightarrow> jobject" where
  "model_dump_exclude_id self =
     [(''name'', JStr (name self)), (''city'', JStr (city self)), (''age'', JInt (age self)),
      (''gender'', JStr (gender self)), (''height'', JFloat (height self)),
      (''weight'', JFloat (weight self)), (''bmi'', JFloat (bmi self)),
      (''verdict'', JStr (verdict self))]"

definition model_dump :: "Patient \<Rightarrow> error + jobject" where
  "model_dump self =
     (case bmi_raises self of
        Some e \<Rightarrow> Inl e
      | None \<Rightarrow> Inr (model_dump_exclude_id self))"

subsection \<open>class PatientUpdate\<close>

text \<open>
  Every field is \<open>Optional\<close> with default \<open>None\<close>. pydantic records which fields the request
  set: \<open>Unset\<close> is a field the body does not mention, \<open>Given None\<close> a field the body sets to
  \<open>null\<close>, \<open>Given (Some x)\<close> a field set to a value. The fields carry the suffix \<open>_u\<close> to
  keep them apart from those of \<open>Patient\<close>.
\<close>

datatype 'a fieldval = Unset | Given "'a option"

record PatientUpdate =
  name_u :: "string fieldval"
  city_u :: "string fieldval"
  age_u :: "int fieldval"
  gender_u :: "string fieldval"
  height_u :: "rat fieldval"
  weight_u :: "rat fieldval"

definition optional ::
  "(jvalue \<Rightarrow> 'a option) \<Rightarrow> ('a \<Rightarrow> bool) \<Rightarrow> jobject \<Rightarrow> string \<Rightarrow> 'a fieldval option" where
  "optional conv ok body k =
     (case map_of body k of
        None \<Rightarrow> Some Unset
      | Some JNull \<Rightarrow> Some (Given None)
      | Some v \<Rightarrow>
          (case conv v of
             None \<Rightarrow> None
           | Some x \<Rightarrow> if ok x then Some (Given (Some x)) else None))"

text \<open>
  \<open>PatientUpdate(**body)\<close>: \<open>age\<close>, \<open>height\<close> and \<open>weight\<close> have \<open>gt=0\<close> (\<open>age\<close> has no upper
  bound here), \<open>gender\<close> is a \<open>Literal\<close>. Other keys of the body, \<open>id\<close> among them, are
  ignored.
\<close>

definition PatientUpdate_init :: "jobject \<Rightarrow> error + PatientUpdate" where
  "PatientUpdate_init body =
     (case (optional as_str (\<lambda>_. True) body ''name'', optional as_str (\<lambda>_. True) body ''city'',
            optional as_int (\<lambda>a. 0 < a) body ''age'',
            optional as_str (\<lambda>g. g \<in> set gender_literals) body ''gender'',
            optional as_float (\<lambda>h. 0 < h) body ''height'',
            optional as_float (\<lambda>w. 0 < w) body ''weight'') of
        (Some n, Some c, Some a, Some g, Some h, Some w) \<Rightarrow>
          Inr \<lparr>name_u = n, city_u = c, age_u = a, gender_u = g, height_u = h, weight_u = w\<rparr>
      | _ \<Rightarrow> Inl ValidationError)"

fun dump_field :: "string \<Rightarrow> ('a \<Rightarrow> jvalue) \<Rightarrow> 'a fieldval \<Rightarrow> jobject" where
  "dump_field k to_json Unset = []"
| "dump_field k to_json (Given None) = [(k, JNull)]"
| "dump_field k to_json (Given (Some x)) = [(k, to_json x)]"

text \<open>
  \<open>patient_update.model_dump(exclude_unset=True)\<close>: the fields the request set, in the order
  of their declaration in the class.
\<close>

definition model_dump_exclude_unset :: "PatientUpdate \<Rightarrow> jobject" where
  "model_dump_exclude_unset self =
     dump_field ''name'' JStr (name_u self) @ dump_field ''city'' JStr (city_u self) @
     dump_field ''age'' JInt (age_u self) @ dump_field ''gender'' JStr (gender_u self) @
     dump_field ''height'' JFloat (height_u self) @ dump_field ''weight'' JFloat (weight_u self)"

subsection \<open>sorted\<close>

text \<open>
  \<open>list.sort\<close> is stable; with \<open>reverse=True\<close> it reverses the list, sorts it and reverses the
  result, which keeps records with equal keys in their original order. A stable sort has
  one possible result, so insertion sort (\<open>sort_key\<close>) stands for Python's algorithm.
\<close>

definition list_sort :: "('a \<Rightarrow> 'k::linorder) \<Rightarrow> bool \<Rightarrow> 'a list \<Rightarrow> 'a list" where
  "list_sort key reverse xs = (if reverse then rev (sort_key key (rev xs)) else sort_key key xs)"

fun is_number :: "jvalue \<Rightarrow> bool" where
  "is_number (JInt _) = True"
| "is_number (JFloat _) = True"
| "is_number _ = False"

fun is_string :: "jvalue \<Rightarrow> bool" where
  "is_string (JStr _) = True"
| "is_string _ = False"

text \<open>The value a number is compared by, and the value a string is compared by.\<close>

fun number_key :: "jvalue \<Rightarrow> rat" where
  "number_key (JInt i) = of_int i"
| "number_key (JFloat r) = r"
| "number_key _ = 0"

fun string_key :: "jvalue \<Rightarrow> string" where
  "string_key (JStr s) = s"
| "string_key _ = []"

text \<open>
  \<open>sorted(xs, key=key, reverse=reverse)\<close>. Numbers compare with numbers and strings with
  strings; every other comparison raises \<open>TypeError\<close>, and a list of two or more elements
  cannot be sorted without one.
\<close>

definition py_sorted :: "'a list \<Rightarrow> ('a \<Rightarrow> jvalue) \<Rightarrow> bool \<Rightarrow> error + 'a list" where
  "py_sorted xs key reverse =
     (if list_all (\<lambda>x. is_number (key x)) xs then Inr (list_sort (\<lambda>x. number_key (key x)) reverse xs)
      else if list_all (\<lambda>x. is_string (key x)) xs then Inr (list_sort (\<lambda>x. string_key (key x)) reverse xs)
      else if length xs \<le> 1 then Inr xs
      else Inl TypeError)"

subsection \<open>The handlers\<close>

definition view :: "collection \<Rightarrow> (error + collection) \<times> collection" where
  "view data = (Inr data, data)"

definition view_patient :: "collection \<Rightarrow> string \<Rightarrow> (error + jobject) \<times> collection" where
  "view_patient data patient_id =
     (case map_of data patient_id of
        Some info \<Rightarrow> (Inr info, data)
      | None \<Rightarrow> (Inl (HTTPException 404 ''Patient not found''), data))"

definition valid_fields :: "string list" where
  "valid_fields = [''height'', ''weight'', ''bmi'']"

definition sort_patients ::
  "collection \<Rightarrow> string \<Rightarrow> string \<Rightarrow> (error + jobject list) \<times> collection" where
  "sort_patients data sort_by order =
     (if sort_by \<notin> set valid_fields
      then (Inl (HTTPException 400 ''Invalid field select from {valid_fields}''), data)
      else if order \<notin> set [''asc'', ''desc'']
      then (Inl (HTTPException 400 ''Invalid order, select either asc or desc''), data)
      else
        let sorted_order = (if order = ''desc'' then True else False)
        in (py_sorted (map snd data) (\<lambda>x. dict_get x sort_by (JInt 0)) sorted_order, data))"

definition create_patient :: "collection \<Rightarrow> Patient \<Rightarrow> (error + response) \<times> collection" where
  "create_patient data patient =
     (if dict_contains data (id_p patient)
      then (Inl (HTTPException 400 ''Patient already exists.''), data)
      else
        case model_dump patient of
          Inl e \<Rightarrow> (Inl e, data)
        | Inr dumped \<Rightarrow>
            (Inr (JSONResponse 201 ''Patient created successfully''),
             AList.update (id_p patient) dumped data))"

text \<open>
  The body of the loop over the fields of the patch ends in \<open>return\<close>, so only its first
  pass runs: \<open>update_fields\<close> takes the first item and never reaches the others. With no
  item the loop does not run, nothing is saved and the handler returns \<open>None\<close>. An exception
  of \<open>Patient(**existing_patient_info)\<close> or of \<open>model_dump\<close> leaves the handler before
  \<open>save_data\<close>.
\<close>

fun update_fields ::
  "jobject \<Rightarrow> jobject \<Rightarrow> collection \<Rightarrow> string \<Rightarrow> (error + response) \<times> collection" where
  "update_fields [] existing_patient_info data patient_id = (Inr NoResponse, data)"
| "update_fields ((key, val) # rest) existing_patient_info data patient_id =
     (let info' = AList.update key val existing_patient_info;
          info'' = AList.update ''id'' (JStr patient_id) info'
      in case Patient_init info'' of
           Inl e \<Rightarrow> (Inl e, data)
         | Inr patient_pydantic_obj \<Rightarrow>
             (case model_dump patient_pydantic_obj of
                Inl e \<Rightarrow> (Inl e, data)
              | Inr dumped \<Rightarrow>
                  (Inr (JSONResponse 200 ''patient_updated''),
                   AList.update patient_id dumped data)))"

definition update_patient ::
  "collection \<Rightarrow> string \<Rightarrow> PatientUpdate \<Rightarrow> (error + response) \<times> collection" where
  "update_patient data patient_id patient_update =
     (case map_of data patient_id of
        None \<Rightarrow> (Inl (HTTPException 404 ''Patient not found''), data)
      | Some existing_patient_info \<Rightarrow>
          update_fields (model_dump_exclude_unset patient_update) existing_patient_info
            data patient_id)"

definition delete_patient :: "collection \<Rightarrow> string \<Rightarrow> (error + response) \<times> collection" where
  "delete_patient data patient_id =
     (if \<not> dict_contains data patient_id
      then (Inl (HTTPException 404 ''patient not found''), data)
      else (Inr (JSONResponse 200 ''patient deleted''), AList.delete patient_id data))"

text \<open>
  The routes with a body: FastAPI validates the body against the parameter's model and
  calls the handler with the instance; a body that does not validate is answered with
  status 422 and the handler does not run.
\<close>

definition post_create :: "collection \<Rightarrow> jobject \<Rightarrow> (error + response) \<times> collection" where
  "post_create data body =
     (case Patient_init body of
        Inl e \<Rightarrow> (Inl RequestValidationError, data)
      | Inr patient \<Rightarrow> create_patient data patient)"

definition put_edit :: "collection \<Rightarrow> string \<Rightarrow> jobject \<Rightarrow> (error + response) \<times> collection" where
  "put_edit data patient_id body =
     (case PatientUpdate_init body of
        Inl e \<Rightarrow> (Inl RequestValidationError, data)
      | Inr patient_update \<Rightarrow> update_patient data patient_id patient_update)"

subsection \<open>Notions used in the statements\<close>

text \<open>The keys of an object as \<open>create_patient\<close> and \<open>update_patient\<close> write it.\<close>

definition stored_keys :: "string list" where
  "stored_keys =
     [''name'', ''city'', ''age'', ''gender'', ''height'', ''weight'', ''bmi'', ''verdict'']"

text \<open>
  What validating a stored object again and dumping the result gives: the raw fields as
  stored, \<open>bmi\<close> and \<open>verdict\<close> derived anew from the stored \<open>height\<close> and \<open>weight\<close>. (The id
  is not part of the dump, so any id serves for the validation.)
\<close>

definition rederived :: "jobject \<Rightarrow> jobject option" where
  "rederived info =
     (case Patient_init (AList.update ''id'' (JStr []) info) of
        Inl e \<Rightarrow> None
      | Inr p \<Rightarrow> Some (model_dump_exclude_id p))"

text \<open>
  The stored shape: the object is the dump of a valid patient without its id, that is,
  validating and dumping it again reproduces it.
\<close>

definition stored_shape :: "jobject \<Rightarrow> bool" where
  "stored_shape info \<longleftrightarrow> rederived info = Some info"

definition all_stored_shape :: "collection \<Rightarrow> bool" where
  "all_stored_shape data = list_all (\<lambda>entry. stored_shape (snd entry)) data"

text \<open>
  The number a record is ordered by when the records are sorted by \<open>sort_by\<close>: the stored
  value of that key, and 0 for a record without the key.
\<close>

definition sort_value :: "string \<Rightarrow> jobject \<Rightarrow> rat" where
  "sort_value sort_by x = (case map_of x sort_by of None \<Rightarrow> 0 | Some v \<Rightarrow> number_key v)"

definition numeric_or_missing :: "string \<Rightarrow> jobject \<Rightarrow> bool" where
  "numeric_or_missing sort_by x = (case map_of x sort_by of None \<Rightarrow> True | Some v \<Rightarrow> is_number v)"

text \<open>A patch that sets no field.\<close>

definition empty_patch :: PatientUpdate where
  "empty_patch =
     \<lparr>name_u = Unset, city_u = Unset, age_u = Unset, gender_u = Unset, height_u = Unset,
      weight_u = Unset\<rparr>"

subsection \<open>Example data\<close>

text \<open>The request body and the stored object of the patient of the specification's example.\<close>

definition asha_body :: jobject where
  "asha_body =
     [(''id'', JStr ''P001''), (''name'', JStr ''Asha''), (''city'', JStr ''Pune''),
      (''age'', JInt 30), (''gender'', JStr ''female''), (''height'', JFloat (16 / 10)),
      (''weight'', JInt 55)]"

definition asha :: Patient where
  "asha =
     \<lparr>id_p = ''P001'', name = ''Asha'', city = ''Pune'', age = 30, gender = ''female'',
      height = 16 / 10, weight = 55\<rparr>"

definition stored_info :: "string \<Rightarrow> string \<Rightarrow> rat \<Rightarrow> rat \<Rightarrow> rat \<Rightarrow> string \<Rightarrow> jobject" where
  "stored_info n c h w b v =
     [(''name'', JStr n), (''city'', JStr c), (''age'', JInt 30), (''gender'', JStr ''female''),
      (''height'', JFloat h), (''weight'', JFloat w), (''bmi'', JFloat b), (''verdict'', JStr v)]"

definition asha_info :: jobject where
  "asha_info = stored_info ''Asha'' ''Pune'' (16 / 10) 55 (2148 / 100) ''Normal''"

definition asha_data :: collection where
  "asha_data = [(''P001'', asha_info)]"

text \<open>
  A request body with a height of \<open>2 ^ -538\<close>, a positive double whose square underflows
  to \<open>0.0\<close>.
\<close>

definition tiny_height_body :: jobject where
  "tiny_height_body =
     [(''id'', JStr ''P007''), (''name'', JStr ''Tara''), (''city'', JStr ''Leh''),
      (''age'', JInt 28), (''gender'', JStr ''other''), (''height'', JFloat (1 / 2 ^ 538)),
      (''weight'', JInt 60)]"

definition tiny_height_patient :: Patient where
  "tiny_height_patient =
     \<lparr>id_p = ''P007'', name = ''Tara'', city = ''Leh'', age = 28, gender = ''other'',
      height = 1 / 2 ^ 538, weight = 60\<rparr>"

text \<open>A patient of a given height and weight.\<close>

definition patient_hw :: "rat \<Rightarrow> rat \<Rightarrow> Patient" where
  "patient_hw h w =
     \<lparr>id_p = ''P002'', name = ''Ravi'', city = ''Delhi'', age = 41, gender = ''male'',
      height = h, weight = w\<rparr>"

text \<open>
  A collection for sorting: two records of equal weight, a record without \<open>weight\<close>, and a
  heavier one.
\<close>

definition asha_80 :: jobject where
  "asha_80 = stored_info ''Asha'' ''Pune'' 2 80 20 ''Normal''"

definition bina_no_weight :: jobject where
  "bina_no_weight = [(''name'', JStr ''Bina''), (''city'', JStr ''Agra'')]"

definition chitra_80 :: jobject where
  "chitra_80 = stored_info ''Chitra'' ''Goa'' 2 80 20 ''Normal''"

definition dev_100 :: jobject where
  "dev_100 = stored_info ''Dev'' ''Kochi'' 2 100 25 ''Overweight''"

definition sort_data :: collection where
  "sort_data =
     [(''P001'', asha_80), (''P002'', bina_no_weight), (''P003'', chitra_80), (''P004'', dev_100)]"

text \<open>
  A file edited by hand: the stored \<open>bmi\<close> and \<open>verdict\<close> of the first record do not belong to
  its \<open>height\<close> and \<open>weight\<close>.
\<close>

definition asha_stale :: jobject where
  "asha_stale = stored_info ''Asha'' ''Pune'' 2 80 99 ''Obese''"

definition stale_data :: collection where
  "stale_data = [(''P001'', asha_stale), (''P004'', dev_100)]"

section \<open>Properties\<close>

subsection \<open>The bounds of the double range\<close>

text \<open>The two bounds written out, for evaluation.\<close>

lemma float_overflow_bound_code [code]:
  "float_overflow_bound =
     179769313486231580793728971405303415079934132710037826936173778980444968292764750946649017977587207096330286416692887910946555547851940402630657488671505820681908902000708383676273854845817711531764475730270069855571366959622842914819860834936475292719074168444365510704342711559699508093042880177904174497792"
  by (simp add: float_overflow_bound_def)

lemma float_of_int_small: "\<bar>i\<bar> \<le> 2 ^ 53 \<Longrightarrow> float_of_int i = Some (of_int i)"
proof -
  assume a: "\<bar>i\<bar> \<le> 2 ^ 53"
  then have "\<bar>of_int i :: rat\<bar> \<le> 2 ^ 53"
    by (metis of_int_abs of_int_le_iff of_int_numeral of_int_power)
  moreover have "(2 :: rat) ^ 53 < float_overflow_bound"
    by (simp add: float_overflow_bound_def)
  ultimately have "\<not> float_overflow_bound \<le> \<bar>of_int i :: rat\<bar>" by linarith
  with a show ?thesis by (simp add: float_of_int_def)
qed

text \<open>An integer of 54 bits loses its last bit; the tie goes to the even mantissa.\<close>

lemma float_of_int_rounds:
  "float_of_int (2 ^ 53 + 1) = Some (2 ^ 53) \<and> float_of_int (2 ^ 53 + 3) = Some (2 ^ 53 + 4) \<and>
   float_of_int (2 ^ 1024) = None"
  by code_simp

lemma float_underflow_bound_code [code]:
  "float_underflow_bound =
     1 / 404804506614621236704990693437834614099113299528284236713802716054860679135990693783920767402874248990374155728633623822779617474771586953734026799881477019843034848553132722728933815484186432682479535356945490137124014966849385397236206711298319112681620113024717539104666829230461005064372655017292012526615415482186989568"
  by (simp add: float_underflow_bound_def)

subsection \<open>Validation\<close>

lemma Patient_init_Inr_iff:
  "Patient_init kwargs = Inr p \<longleftrightarrow>
     required as_str kwargs ''id'' = Some (id_p p) \<and> required as_str kwargs ''name'' = Some (name p) \<and>
     required as_str kwargs ''city'' = Some (city p) \<and> required as_int kwargs ''age'' = Some (age p) \<and>
     required as_str kwargs ''gender'' = Some (gender p) \<and>
     required as_float kwargs ''height'' = Some (height p) \<and>
     required as_float kwargs ''weight'' = Some (weight p) \<and>
     0 < age p \<and> age p < 120 \<and> gender p \<in> set gender_literals \<and> 0 < height p \<and> 0 < weight p"
  unfolding Patient_init_def
  by (cases "required as_str kwargs ''id''"; cases "required as_str kwargs ''name''";
      cases "required as_str kwargs ''city''"; cases "required as_int kwargs ''age''";
      cases "required as_str kwargs ''gender''"; cases "required as_float kwargs ''height''";
      cases "required as_float kwargs ''weight''"; cases p; simp; blast?)

lemma Patient_init_cases:
  "Patient_init kwargs = Inl ValidationError \<or> (\<exists>p. Patient_init kwargs = Inr p)"
  unfolding Patient_init_def
  by (cases "required as_str kwargs ''id''"; cases "required as_str kwargs ''name''";
      cases "required as_str kwargs ''city''"; cases "required as_int kwargs ''age''";
      cases "required as_str kwargs ''gender''"; cases "required as_float kwargs ''height''";
      cases "required as_float kwargs ''weight''"; simp)

text \<open>Two keyword dicts that agree on the fields of the model construct the same patient.\<close>

lemma Patient_init_cong:
  assumes "\<And>k. k \<in> set [''id'', ''name'', ''city'', ''age'', ''gender'', ''height'', ''weight'']
             \<Longrightarrow> map_of kwargs' k = map_of kwargs k"
  shows "Patient_init kwargs' = Patient_init kwargs"
proof -
  have r: "\<And>conv k. k \<in> set [''id'', ''name'', ''city'', ''age'', ''gender'', ''height'', ''weight'']
             \<Longrightarrow> required conv kwargs' k = required conv kwargs k"
    using assms by (simp only: required_def)
  have iff: "Patient_init kwargs' = Inr p \<longleftrightarrow> Patient_init kwargs = Inr p" for p
    unfolding Patient_init_Inr_iff by (simp add: r)
  show ?thesis
    using iff Patient_init_cases [of kwargs] Patient_init_cases [of kwargs'] by metis
qed

lemma Patient_init_ignores_bmi:
  "Patient_init (AList.update ''bmi'' v kwargs) = Patient_init kwargs"
  by (rule Patient_init_cong) (auto simp: update_conv')

subsection \<open>The computed fields\<close>

text \<open>
  Claim C3. \<open>verdict\<close> is a function of \<open>bmi\<close> with bands that include their lower bound:
  below 18.5 \<open>Underweight\<close>, from 18.5 and below 25 \<open>Normal\<close>, from 25 and below 30
  \<open>Overweight\<close>, from 30 \<open>Obese\<close>; in particular 18.5 is \<open>Normal\<close>, 25 is \<open>Overweight\<close> and
  30 is \<open>Obese\<close>. Patients of equal \<open>bmi\<close> have equal verdicts, and the dump carries the
  verdict.
\<close>

theorem verdict_bands:
  "(bmi p < 185 / 10 \<longrightarrow> verdict p = ''Underweight'') \<and>
   (185 / 10 \<le> bmi p \<and> bmi p < 25 \<longrightarrow> verdict p = ''Normal'') \<and>
   (25 \<le> bmi p \<and> bmi p < 30 \<longrightarrow> verdict p = ''Overweight'') \<and>
   (30 \<le> bmi p \<longrightarrow> verdict p = ''Obese'') \<and>
   (bmi p = 185 / 10 \<longrightarrow> verdict p = ''Normal'') \<and>
   (bmi p = 25 \<longrightarrow> verdict p = ''Overweight'') \<and>
   (bmi p = 30 \<longrightarrow> verdict p = ''Obese'') \<and>
   (bmi q = bmi p \<longrightarrow> verdict q = verdict p) \<and>
   map_of (model_dump_exclude_id p) ''verdict'' = Some (JStr (verdict p))"
proof -
  have bands: "(bmi p < 185 / 10 \<longrightarrow> verdict p = ''Underweight'') \<and>
      (185 / 10 \<le> bmi p \<and> bmi p < 25 \<longrightarrow> verdict p = ''Normal'') \<and>
      (25 \<le> bmi p \<and> bmi p < 30 \<longrightarrow> verdict p = ''Overweight'') \<and>
      (30 \<le> bmi p \<longrightarrow> verdict p = ''Obese'')"
    by (simp add: verdict_def)
  have bounds: "(bmi p = 185 / 10 \<longrightarrow> verdict p = ''Normal'') \<and>
      (bmi p = 25 \<longrightarrow> verdict p = ''Overweight'') \<and>
      (bmi p = 30 \<longrightarrow> verdict p = ''Obese'')"
    by (simp add: verdict_def)
  have pure: "bmi q = bmi p \<longrightarrow> verdict q = verdict p"
  proof
    assume e: "bmi q = bmi p"
    show "verdict q = verdict p" unfolding verdict_def e ..
  qed
  have dump: "map_of (model_dump_exclude_id p) ''verdict'' = Some (JStr (verdict p))"
    by (simp add: model_dump_exclude_id_def)
  from bands bounds pure dump show ?thesis by (elim conjE, intro conjI)
qed

theorem verdict_bands_witness:
  "bmi (patient_hw 2 40) = 10 \<and> verdict (patient_hw 2 40) = ''Underweight'' \<and>
   bmi (patient_hw 2 74) = 185 / 10 \<and> verdict (patient_hw 2 74) = ''Normal'' \<and>
   bmi (patient_hw 2 100) = 25 \<and> verdict (patient_hw 2 100) = ''Overweight'' \<and>
   bmi (patient_hw 2 120) = 30 \<and> verdict (patient_hw 2 120) = ''Obese'' \<and>
   bmi (patient_hw 1 25) = bmi (patient_hw 2 100) \<and>
   verdict (patient_hw 1 25) = verdict (patient_hw 2 100)"
proof -
  have b1: "bmi (patient_hw 2 40) = 10" by code_simp
  have b2: "bmi (patient_hw 2 74) = 185 / 10" by code_simp
  have b3: "bmi (patient_hw 2 100) = 25" by code_simp
  have b4: "bmi (patient_hw 2 120) = 30" by code_simp
  have b5: "bmi (patient_hw 1 25) = bmi (patient_hw 2 100)" by code_simp
  have v1: "verdict (patient_hw 2 40) = ''Underweight''"
    using verdict_bands [of "patient_hw 2 40"] b1 by simp
  have v2: "verdict (patient_hw 2 74) = ''Normal''"
    using verdict_bands [of "patient_hw 2 74"] b2 by simp
  have v3: "verdict (patient_hw 2 100) = ''Overweight''"
    using verdict_bands [of "patient_hw 2 100"] b3 by simp
  have v4: "verdict (patient_hw 2 120) = ''Obese''"
    using verdict_bands [of "patient_hw 2 120"] b4 by simp
  have v5: "verdict (patient_hw 1 25) = verdict (patient_hw 2 100)"
    using verdict_bands [of "patient_hw 2 100" "patient_hw 1 25"] b5 by blast
  from b1 v1 b2 v2 b3 v3 b4 v4 b5 v5 show ?thesis by (intro conjI)
qed

subsection \<open>Create\<close>

lemma dict_contains_iff: "dict_contains d k \<longleftrightarrow> k \<in> fst ` set d"
  by (simp add: dict_contains_def map_of_eq_None_iff)

lemma update_append: "k \<notin> fst ` set al \<Longrightarrow> AList.update k v al = al @ [(k, v)]"
  by (induction al) auto

lemma model_dump_None: "bmi_raises p = None \<Longrightarrow> model_dump p = Inr (model_dump_exclude_id p)"
  by (simp add: model_dump_def)

lemma model_dump_Some: "bmi_raises p = Some e \<Longrightarrow> model_dump p = Inl e"
  by (simp add: model_dump_def)

lemma model_dump_Inr: "model_dump p = Inr dumped \<Longrightarrow> dumped = model_dump_exclude_id p"
  by (cases "bmi_raises p") (simp_all add: model_dump_def)

lemma Patient_init_fields:
  assumes "Patient_init kwargs = Inr p"
  shows "required as_str kwargs ''name'' = Some (name p) \<and>
         required as_str kwargs ''city'' = Some (city p) \<and>
         required as_int kwargs ''age'' = Some (age p) \<and>
         required as_str kwargs ''gender'' = Some (gender p) \<and>
         required as_float kwargs ''height'' = Some (height p) \<and>
         required as_float kwargs ''weight'' = Some (weight p)"
  using assms unfolding Patient_init_Inr_iff by (elim conjE, intro conjI)

text \<open>
  Claim C4 as stated fails: when the square of the height underflows to zero, create of a
  valid record with a new id does not succeed; it raises \<open>ZeroDivisionError\<close> and stores
  nothing.
\<close>

theorem create_patient_raises_on_tiny_height:
  "Patient_init tiny_height_body = Inr tiny_height_patient \<and>
   id_p tiny_height_patient \<notin> fst ` set ([] :: collection) \<and>
   create_patient [] tiny_height_patient = (Inl ZeroDivisionError, []) \<and>
   post_create [] tiny_height_body = (Inl ZeroDivisionError, [])"
proof -
  have i: "Patient_init tiny_height_body = Inr tiny_height_patient"
    by (simp add: Patient_init_def tiny_height_body_def tiny_height_patient_def required_def
        gender_literals_def float_of_int_small)
  have n: "id_p tiny_height_patient \<notin> fst ` set ([] :: collection)" by simp
  have c: "create_patient [] tiny_height_patient = (Inl ZeroDivisionError, [])" by code_simp
  have p: "post_create [] tiny_height_body = (Inl ZeroDivisionError, [])" by code_simp
  from i n c p show ?thesis by (intro conjI)
qed

text \<open>
  Claim C4, amended. For every collection and every valid record: when the record's id is
  a key of the collection, create fails with the error for a duplicate id (\<open>HTTPException\<close>,
  status 400, \<open>Patient already exists.\<close>) and the collection stays as it is. Otherwise,
  when the \<open>bmi\<close> of the record can be computed, create succeeds and the collection is the
  old one with one object added under the id: the object has the keys \<open>name\<close>, \<open>city\<close>, \<open>age\<close>,
  \<open>gender\<close>, \<open>height\<close>, \<open>weight\<close>, \<open>bmi\<close>, \<open>verdict\<close>, its raw fields are those of the record,
  which are those of the request, and its \<open>verdict\<close> is the band of its \<open>bmi\<close>; every other
  entry is as before. When the \<open>bmi\<close> cannot be computed, create fails with the arithmetic
  error and the collection stays as it is.
\<close>

theorem create_patient_duplicate_or_insert:
  assumes "Patient_init body = Inr patient"
  shows "(id_p patient \<in> fst ` set data \<longrightarrow>
            create_patient data patient =
              (Inl (HTTPException 400 ''Patient already exists.''), data)) \<and>
         (id_p patient \<notin> fst ` set data \<and> bmi_raises patient = None \<longrightarrow>
            (\<exists>info b.
               create_patient data patient =
                 (Inr (JSONResponse 201 ''Patient created successfully''),
                  data @ [(id_p patient, info)]) \<and>
               map fst info = stored_keys \<and>
               map_of info ''name'' = Some (JStr (name patient)) \<and>
               map_of info ''city'' = Some (JStr (city patient)) \<and>
               map_of info ''age'' = Some (JInt (age patient)) \<and>
               map_of info ''gender'' = Some (JStr (gender patient)) \<and>
               map_of info ''height'' = Some (JFloat (height patient)) \<and>
               map_of info ''weight'' = Some (JFloat (weight patient)) \<and>
               map_of info ''bmi'' = Some (JFloat b) \<and>
               map_of info ''verdict'' =
                 Some (JStr (if b < 185 / 10 then ''Underweight''
                             else if b < 25 then ''Normal''
                             else if b < 30 then ''Overweight'' else ''Obese'')) \<and>
               map_of (data @ [(id_p patient, info)]) (id_p patient) = Some info \<and>
               (\<forall>k. k \<noteq> id_p patient \<longrightarrow>
                  map_of (data @ [(id_p patient, info)]) k = map_of data k))) \<and>
         (id_p patient \<notin> fst ` set data \<and> bmi_raises patient = Some e \<longrightarrow>
            create_patient data patient = (Inl e, data)) \<and>
         post_create data body = create_patient data patient \<and>
         required as_str body ''id'' = Some (id_p patient) \<and>
         required as_str body ''name'' = Some (name patient) \<and>
         required as_str body ''city'' = Some (city patient) \<and>
         required as_int body ''age'' = Some (age patient) \<and>
         required as_str body ''gender'' = Some (gender patient) \<and>
         required as_float body ''height'' = Some (height patient) \<and>
         required as_float body ''weight'' = Some (weight patient)"
proof -
  let ?info = "model_dump_exclude_id patient"
  have dup: "create_patient data patient =
      (Inl (HTTPException 400 ''Patient already exists.''), data)"
    if "id_p patient \<in> fst ` set data"
    using that by (simp add: create_patient_def dict_contains_iff)
  have new: "\<exists>info b.
      create_patient data patient =
        (Inr (JSONResponse 201 ''Patient created successfully''),
         data @ [(id_p patient, info)]) \<and>
      map fst info = stored_keys \<and>
      map_of info ''name'' = Some (JStr (name patient)) \<and>
      map_of info ''city'' = Some (JStr (city patient)) \<and>
      map_of info ''age'' = Some (JInt (age patient)) \<and>
      map_of info ''gender'' = Some (JStr (gender patient)) \<and>
      map_of info ''height'' = Some (JFloat (height patient)) \<and>
      map_of info ''weight'' = Some (JFloat (weight patient)) \<and>
      map_of info ''bmi'' = Some (JFloat b) \<and>
      map_of info ''verdict'' =
        Some (JStr (if b < 185 / 10 then ''Underweight''
                    else if b < 25 then ''Normal''
                    else if b < 30 then ''Overweight'' else ''Obese'')) \<and>
      map_of (data @ [(id_p patient, info)]) (id_p patient) = Some info \<and>
      (\<forall>k. k \<noteq> id_p patient \<longrightarrow>
         map_of (data @ [(id_p patient, info)]) k = map_of data k)"
    if n: "id_p patient \<notin> fst ` set data" and b: "bmi_raises patient = None"
  proof -
    have c: "create_patient data patient =
        (Inr (JSONResponse 201 ''Patient created successfully''),
         data @ [(id_p patient, ?info)])"
      using n by (simp add: create_patient_def dict_contains_iff model_dump_None [OF b] update_append)
    have k: "map fst ?info = stored_keys"
      by (simp add: model_dump_exclude_id_def stored_keys_def)
    have f1: "map_of ?info ''name'' = Some (JStr (name patient))"
      by (simp add: model_dump_exclude_id_def)
    have f2: "map_of ?info ''city'' = Some (JStr (city patient))"
      by (simp add: model_dump_exclude_id_def)
    have f3: "map_of ?info ''age'' = Some (JInt (age patient))"
      by (simp add: model_dump_exclude_id_def)
    have f4: "map_of ?info ''gender'' = Some (JStr (gender patient))"
      by (simp add: model_dump_exclude_id_def)
    have f5: "map_of ?info ''height'' = Some (JFloat (height patient))"
      by (simp add: model_dump_exclude_id_def)
    have f6: "map_of ?info ''weight'' = Some (JFloat (weight patient))"
      by (simp add: model_dump_exclude_id_def)
    have f7: "map_of ?info ''bmi'' = Some (JFloat (bmi patient))"
      by (simp add: model_dump_exclude_id_def)
    have f8: "map_of ?info ''verdict'' =
        Some (JStr (if bmi patient < 185 / 10 then ''Underweight''
                    else if bmi patient < 25 then ''Normal''
                    else if bmi patient < 30 then ''Overweight'' else ''Obese''))"
      unfolding verdict_def [symmetric] by (simp add: model_dump_exclude_id_def)
    from n have none: "map_of data (id_p patient) = None"
      by (rule map_of_eq_None_iff [THEN iffD2])
    have l: "map_of (data @ [(id_p patient, ?info)]) (id_p patient) = Some ?info"
      by (simp add: map_add_def none)
    have o: "\<forall>k. k \<noteq> id_p patient \<longrightarrow>
        map_of (data @ [(id_p patient, ?info)]) k = map_of data k"
      by (simp add: map_add_def split: option.split)
    from c k f1 f2 f3 f4 f5 f6 f7 f8 l o show ?thesis
      by (intro exI [of _ ?info] exI [of _ "bmi patient"] conjI)
  qed
  have raises: "create_patient data patient = (Inl e, data)"
    if n: "id_p patient \<notin> fst ` set data" and b: "bmi_raises patient = Some e"
    using n by (simp add: create_patient_def dict_contains_iff model_dump_Some [OF b])
  have route: "post_create data body = create_patient data patient"
    using assms by (simp only: post_create_def sum.case)
  from assms have i: "required as_str body ''id'' = Some (id_p patient)"
    unfolding Patient_init_Inr_iff by (elim conjE)
  note f = Patient_init_fields [OF assms]
  show ?thesis
  proof (intro conjI impI)
    assume "id_p patient \<in> fst ` set data"
    then show "create_patient data patient =
        (Inl (HTTPException 400 ''Patient already exists.''), data)" by (rule dup)
  next
    assume "id_p patient \<notin> fst ` set data \<and> bmi_raises patient = None"
    then have "id_p patient \<notin> fst ` set data" and "bmi_raises patient = None" by simp_all
    then show "\<exists>info b.
      create_patient data patient =
        (Inr (JSONResponse 201 ''Patient created successfully''),
         data @ [(id_p patient, info)]) \<and>
      map fst info = stored_keys \<and>
      map_of info ''name'' = Some (JStr (name patient)) \<and>
      map_of info ''city'' = Some (JStr (city patient)) \<and>
      map_of info ''age'' = Some (JInt (age patient)) \<and>
      map_of info ''gender'' = Some (JStr (gender patient)) \<and>
      map_of info ''height'' = Some (JFloat (height patient)) \<and>
      map_of info ''weight'' = Some (JFloat (weight patient)) \<and>
      map_of info ''bmi'' = Some (JFloat b) \<and>
      map_of info ''verdict'' =
        Some (JStr (if b < 185 / 10 then ''Underweight''
                    else if b < 25 then ''Normal''
                    else if b < 30 then ''Overweight'' else ''Obese'')) \<and>
      map_of (data @ [(id_p patient, info)]) (id_p patient) = Some info \<and>
      (\<forall>k. k \<noteq> id_p patient \<longrightarrow>
         map_of (data @ [(id_p patient, info)]) k = map_of data k)" by (rule new)
  next
    assume "id_p patient \<notin> fst ` set data \<and> bmi_raises patient = Some e"
    then have "id_p patient \<notin> fst ` set data" and "bmi_raises patient = Some e" by simp_all
    then show "create_patient data patient = (Inl e, data)" by (rule raises)
  next
    show "post_create data body = create_patient data patient" by (rule route)
  next
    show "required as_str body ''id'' = Some (id_p patient)" by (rule i)
  next
    from f show "required as_str body ''name'' = Some (name patient)" by (elim conjE)
    from f show "required as_str body ''city'' = Some (city patient)" by (elim conjE)
    from f show "required as_int body ''age'' = Some (age patient)" by (elim conjE)
    from f show "required as_str body ''gender'' = Some (gender patient)" by (elim conjE)
    from f show "required as_float body ''height'' = Some (height patient)" by (elim conjE)
    from f show "required as_float body ''weight'' = Some (weight patient)" by (elim conjE)
  qed
qed

lemma Patient_init_asha: "Patient_init asha_body = Inr asha"
  by (simp add: Patient_init_def asha_body_def asha_def required_def gender_literals_def
      float_of_int_small)

lemma model_dump_asha: "model_dump_exclude_id asha = asha_info"
  by code_simp

theorem create_patient_duplicate_or_insert_witness:
  "Patient_init asha_body = Inr asha \<and> id_p asha \<in> fst ` set asha_data \<and>
   create_patient asha_data asha = (Inl (HTTPException 400 ''Patient already exists.''), asha_data) \<and>
   id_p asha \<notin> fst ` set ([] :: collection) \<and> bmi_raises asha = None \<and>
   create_patient [] asha = (Inr (JSONResponse 201 ''Patient created successfully''), asha_data) \<and>
   post_create [] asha_body = (Inr (JSONResponse 201 ''Patient created successfully''), asha_data) \<and>
   map_of asha_data ''P001'' = Some asha_info \<and>
   map_of asha_info ''name'' = Some (JStr ''Asha'') \<and>
   map_of asha_info ''weight'' = Some (JFloat 55) \<and>
   required as_str asha_body ''name'' = Some ''Asha'' \<and>
   required as_float asha_body ''weight'' = Some 55 \<and>
   Patient_init tiny_height_body = Inr tiny_height_patient \<and>
   id_p tiny_height_patient \<notin> fst ` set asha_data \<and>
   bmi_raises tiny_height_patient = Some ZeroDivisionError \<and>
   create_patient asha_data tiny_height_patient = (Inl ZeroDivisionError, asha_data)"
proof -
  have i: "Patient_init asha_body = Inr asha" by (rule Patient_init_asha)
  have m: "id_p asha \<in> fst ` set asha_data" by (simp add: asha_def asha_data_def)
  have n: "id_p asha \<notin> fst ` set ([] :: collection)" by simp
  have b: "bmi_raises asha = None" by code_simp
  have e: "create_patient [] asha =
      (Inr (JSONResponse 201 ''Patient created successfully''), asha_data)" by code_simp
  have nm: "name asha = ''Asha''" and wt: "weight asha = 55" and pid: "id_p asha = ''P001''"
    by (simp_all add: asha_def)
  note t1 = create_patient_duplicate_or_insert [OF i, of asha_data ZeroDivisionError]
  note t2 = create_patient_duplicate_or_insert [OF i, of "[]" ZeroDivisionError]
  from t1 m have dup: "create_patient asha_data asha =
      (Inl (HTTPException 400 ''Patient already exists.''), asha_data)" by blast
  from t2 n b obtain info where
    c: "create_patient [] asha =
        (Inr (JSONResponse 201 ''Patient created successfully''), [] @ [(id_p asha, info)])"
    and f1: "map_of info ''name'' = Some (JStr (name asha))"
    and f6: "map_of info ''weight'' = Some (JFloat (weight asha))"
    and l: "map_of ([] @ [(id_p asha, info)]) (id_p asha) = Some info"
    by blast
  from c e have d: "[(id_p asha, info)] = asha_data" by simp
  then have info: "info = asha_info" by (simp add: asha_data_def)
  from l have w1: "map_of asha_data ''P001'' = Some asha_info"
    unfolding append_Nil pid info by (simp add: asha_data_def)
  from f1 have w2: "map_of asha_info ''name'' = Some (JStr ''Asha'')" unfolding info nm .
  from f6 have w3: "map_of asha_info ''weight'' = Some (JFloat 55)" unfolding info wt .
  from t2 have "post_create [] asha_body = create_patient [] asha" by (elim conjE)
  then have route: "post_create [] asha_body =
      (Inr (JSONResponse 201 ''Patient created successfully''), asha_data)" unfolding e .
  from t2 have "required as_str asha_body ''name'' = Some (name asha)" by (elim conjE)
  then have w4: "required as_str asha_body ''name'' = Some ''Asha''" unfolding nm .
  from t2 have "required as_float asha_body ''weight'' = Some (weight asha)" by (elim conjE)
  then have w5: "required as_float asha_body ''weight'' = Some 55" unfolding wt .
  have ti: "Patient_init tiny_height_body = Inr tiny_height_patient"
    by (simp add: Patient_init_def tiny_height_body_def tiny_height_patient_def required_def
        gender_literals_def float_of_int_small)
  have tn: "id_p tiny_height_patient \<notin> fst ` set asha_data"
    by (simp add: tiny_height_patient_def asha_data_def)
  have tb: "bmi_raises tiny_height_patient = Some ZeroDivisionError" by code_simp
  from create_patient_duplicate_or_insert [OF ti, of asha_data ZeroDivisionError] tn tb
  have w6: "create_patient asha_data tiny_height_patient = (Inl ZeroDivisionError, asha_data)"
    by blast
  from i m dup n b e route w1 w2 w3 w4 w5 ti tn tb w6 show ?thesis by (intro conjI)
qed

subsection \<open>Delete and lookup\<close>

text \<open>
  Claim C6. For an id that is not a key of the collection, delete and lookup fail with the
  not-found error (\<open>HTTPException\<close>, status 404) and the collection stays as it is. Delete
  of an id that is a key succeeds and leaves the collection without that entry, the other
  entries unchanged and in their order.
\<close>

theorem delete_and_lookup_by_id:
  "(patient_id \<notin> fst ` set data \<longrightarrow>
      delete_patient data patient_id = (Inl (HTTPException 404 ''patient not found''), data) \<and>
      view_patient data patient_id = (Inl (HTTPException 404 ''Patient not found''), data)) \<and>
   (patient_id \<in> fst ` set data \<longrightarrow>
      delete_patient data patient_id =
        (Inr (JSONResponse 200 ''patient deleted''), filter (\<lambda>entry. fst entry \<noteq> patient_id) data) \<and>
      map_of (snd (delete_patient data patient_id)) patient_id = None \<and>
      (\<forall>k. k \<noteq> patient_id \<longrightarrow>
         map_of (snd (delete_patient data patient_id)) k = map_of data k))"
proof -
  have del_missing: "delete_patient data patient_id =
      (Inl (HTTPException 404 ''patient not found''), data)"
    if "patient_id \<notin> fst ` set data"
    using that by (simp add: delete_patient_def dict_contains_iff)
  have view_missing: "view_patient data patient_id =
      (Inl (HTTPException 404 ''Patient not found''), data)"
    if "patient_id \<notin> fst ` set data"
  proof -
    from that have n: "map_of data patient_id = None"
      by (rule map_of_eq_None_iff [THEN iffD2])
    show ?thesis unfolding view_patient_def n by simp
  qed
  have f: "AList.delete patient_id data = filter (\<lambda>entry. fst entry \<noteq> patient_id) data"
    by (induction data) auto
  have del: "delete_patient data patient_id =
      (Inr (JSONResponse 200 ''patient deleted''), filter (\<lambda>entry. fst entry \<noteq> patient_id) data)"
    if "patient_id \<in> fst ` set data"
    using that by (simp add: delete_patient_def dict_contains_iff f)
  have gone: "map_of (snd (delete_patient data patient_id)) patient_id = None"
    if "patient_id \<in> fst ` set data"
    using that
    by (simp add: delete_patient_def dict_contains_iff delete_conv')
  have rest: "map_of (snd (delete_patient data patient_id)) k = map_of data k"
    if "patient_id \<in> fst ` set data" "k \<noteq> patient_id" for k
    using that
    by (simp add: delete_patient_def dict_contains_iff delete_conv')
  show ?thesis
  proof (intro conjI impI allI)
    assume "patient_id \<notin> fst ` set data"
    then show "delete_patient data patient_id =
        (Inl (HTTPException 404 ''patient not found''), data)" by (rule del_missing)
  next
    assume "patient_id \<notin> fst ` set data"
    then show "view_patient data patient_id =
        (Inl (HTTPException 404 ''Patient not found''), data)" by (rule view_missing)
  next
    assume "patient_id \<in> fst ` set data"
    then show "delete_patient data patient_id =
        (Inr (JSONResponse 200 ''patient deleted''), filter (\<lambda>entry. fst entry \<noteq> patient_id) data)"
      by (rule del)
  next
    assume "patient_id \<in> fst ` set data"
    then show "map_of (snd (delete_patient data patient_id)) patient_id = None" by (rule gone)
  next
    fix k assume "patient_id \<in> fst ` set data" "k \<noteq> patient_id"
    then show "map_of (snd (delete_patient data patient_id)) k = map_of data k" by (rule rest)
  qed
qed

theorem delete_and_lookup_by_id_witness:
  "''P999'' \<notin> fst ` set asha_data \<and> ''P001'' \<in> fst ` set asha_data \<and>
   delete_patient asha_data ''P999'' = (Inl (HTTPException 404 ''patient not found''), asha_data) \<and>
   view_patient asha_data ''P999'' = (Inl (HTTPException 404 ''Patient not found''), asha_data) \<and>
   delete_patient asha_data ''P001'' = (Inr (JSONResponse 200 ''patient deleted''), [])"
proof -
  have a: "''P999'' \<notin> fst ` set asha_data" by (simp add: asha_data_def)
  have b: "''P001'' \<in> fst ` set asha_data" by (simp add: asha_data_def)
  have f: "filter (\<lambda>entry. fst entry \<noteq> ''P001'') asha_data = []" by (simp add: asha_data_def)
  note t1 = delete_and_lookup_by_id [of "''P999''" asha_data]
  note t2 = delete_and_lookup_by_id [of "''P001''" asha_data]
  from t1 a have c: "delete_patient asha_data ''P999'' =
      (Inl (HTTPException 404 ''patient not found''), asha_data)" by blast
  from t1 a have d: "view_patient asha_data ''P999'' =
      (Inl (HTTPException 404 ''Patient not found''), asha_data)" by blast
  from t2 b have e: "delete_patient asha_data ''P001'' =
      (Inr (JSONResponse 200 ''patient deleted''), [])" unfolding f by blast
  from a b c d e show ?thesis by (intro conjI)
qed

subsection \<open>Update with the empty patch\<close>

lemma PatientUpdate_init_empty: "PatientUpdate_init [] = Inr empty_patch"
  by (simp add: PatientUpdate_init_def optional_def empty_patch_def)

lemma model_dump_empty_patch: "model_dump_exclude_unset empty_patch = []"
  by (simp add: model_dump_exclude_unset_def empty_patch_def)

text \<open>
  Claim C7. For an existing patient, an update with the empty patch leaves the stored
  record equal to the original, \<open>bmi\<close> and \<open>verdict\<close> included: the collection is unchanged.
\<close>

theorem update_empty_patch_unchanged:
  assumes "patient_id \<in> fst ` set data"
  shows "update_patient data patient_id empty_patch = (Inr NoResponse, data) \<and>
         put_edit data patient_id [] = (Inr NoResponse, data) \<and>
         map_of (snd (update_patient data patient_id empty_patch)) patient_id =
           map_of data patient_id"
proof -
  from assms obtain info where info: "map_of data patient_id = Some info"
    by (metis map_of_eq_None_iff not_Some_eq)
  have u: "update_patient data patient_id empty_patch = (Inr NoResponse, data)"
    by (simp only: update_patient_def info option.case model_dump_empty_patch update_fields.simps)
  have r: "put_edit data patient_id [] = (Inr NoResponse, data)"
    by (simp only: put_edit_def PatientUpdate_init_empty sum.case u)
  have s: "map_of (snd (update_patient data patient_id empty_patch)) patient_id =
      map_of data patient_id"
    by (simp only: u snd_conv)
  from u r s show ?thesis by (intro conjI)
qed

theorem update_empty_patch_unchanged_witness:
  "''P001'' \<in> fst ` set asha_data \<and>
   update_patient asha_data ''P001'' empty_patch = (Inr NoResponse, asha_data) \<and>
   put_edit asha_data ''P001'' [] = (Inr NoResponse, asha_data) \<and>
   map_of (snd (update_patient asha_data ''P001'' empty_patch)) ''P001'' = Some asha_info"
proof -
  have b: "''P001'' \<in> fst ` set asha_data" by (simp add: asha_data_def)
  have m: "map_of asha_data ''P001'' = Some asha_info" by (simp add: asha_data_def)
  note t = update_empty_patch_unchanged [OF b]
  from t have u: "update_patient asha_data ''P001'' empty_patch = (Inr NoResponse, asha_data)"
    by (elim conjE)
  from t have r: "put_edit asha_data ''P001'' [] = (Inr NoResponse, asha_data)"
    by (elim conjE)
  from t have "map_of (snd (update_patient asha_data ''P001'' empty_patch)) ''P001'' =
      map_of asha_data ''P001''" by (elim conjE)
  then have s: "map_of (snd (update_patient asha_data ''P001'' empty_patch)) ''P001'' =
      Some asha_info" unfolding m .
  from b u r s show ?thesis by (intro conjI)
qed

subsection \<open>The stored shape\<close>

lemma model_dump_ignores_id: "model_dump_exclude_id (p\<lparr>id_p := i\<rparr>) = model_dump_exclude_id p"
  by (simp add: model_dump_exclude_id_def bmi_def verdict_def)

lemma Patient_init_of_dump:
  assumes "0 < age p" "age p < 120" "gender p \<in> set gender_literals" "0 < height p" "0 < weight p"
  shows "Patient_init (AList.update ''id'' (JStr i) (model_dump_exclude_id p)) = Inr (p\<lparr>id_p := i\<rparr>)"
  unfolding Patient_init_Inr_iff using assms
  by (simp add: required_def update_conv' model_dump_exclude_id_def)

lemma Patient_init_valid:
  assumes "Patient_init kwargs = Inr p"
  shows "0 < age p" "age p < 120" "gender p \<in> set gender_literals" "0 < height p" "0 < weight p"
proof -
  from assms have c: "0 < age p \<and> age p < 120 \<and> gender p \<in> set gender_literals \<and>
      0 < height p \<and> 0 < weight p"
    unfolding Patient_init_Inr_iff by (elim conjE, intro conjI)
  from c show "0 < age p" by (elim conjE)
  from c show "age p < 120" by (elim conjE)
  from c show "gender p \<in> set gender_literals" by (elim conjE)
  from c show "0 < height p" by (elim conjE)
  from c show "0 < weight p" by (elim conjE)
qed

lemma stored_shape_dump:
  assumes "Patient_init kwargs = Inr p"
  shows "stored_shape (model_dump_exclude_id p)"
proof -
  note v = Patient_init_valid [OF assms]
  have "Patient_init (AList.update ''id'' (JStr []) (model_dump_exclude_id p)) = Inr (p\<lparr>id_p := []\<rparr>)"
    using v by (rule Patient_init_of_dump)
  then show ?thesis
    unfolding stored_shape_def rederived_def by (simp add: model_dump_ignores_id)
qed

lemma stored_shape_is_dump:
  assumes "stored_shape info"
  shows "\<exists>p. info = model_dump_exclude_id p"
proof (cases "Patient_init (AList.update ''id'' (JStr []) info)")
  case (Inl e)
  with assms show ?thesis unfolding stored_shape_def rederived_def by simp
next
  case (Inr p)
  with assms have "info = model_dump_exclude_id p"
    unfolding stored_shape_def rederived_def by simp
  then show ?thesis ..
qed

lemma keys_of_dump: "map fst (model_dump_exclude_id p) = stored_keys"
  by (simp add: model_dump_exclude_id_def stored_keys_def)

lemma all_stored_shape_update:
  "all_stored_shape data \<Longrightarrow> stored_shape info \<Longrightarrow> all_stored_shape (AList.update k info data)"
  unfolding all_stored_shape_def by (induction data) auto

lemma all_stored_shape_delete:
  "all_stored_shape data \<Longrightarrow> all_stored_shape (AList.delete k data)"
  unfolding all_stored_shape_def by (induction data) auto

lemma all_stored_shape_lookup:
  "all_stored_shape data \<Longrightarrow> map_of data k = Some info \<Longrightarrow> stored_shape info"
  unfolding all_stored_shape_def by (induction data) (auto split: if_splits)

text \<open>The two outcomes of the loop of \<open>update_patient\<close>.\<close>

lemma update_fields_cases:
  "update_fields items info data patient_id = (r, data') \<Longrightarrow>
     data' = data \<and> (r = Inr NoResponse \<and> items = [] \<or> (\<exists>e. r = Inl e)) \<or>
     (\<exists>p kwargs. Patient_init kwargs = Inr p \<and> r = Inr (JSONResponse 200 ''patient_updated'') \<and>
        items \<noteq> [] \<and> data' = AList.update patient_id (model_dump_exclude_id p) data)"
proof (cases items)
  case Nil
  assume "update_fields items info data patient_id = (r, data')"
  with Nil show ?thesis by simp
next
  case (Cons item rest)
  obtain key val where item: "item = (key, val)" by (cases item)
  let ?kw = "AList.update ''id'' (JStr patient_id) (AList.update key val info)"
  assume u: "update_fields items info data patient_id = (r, data')"
  show ?thesis
  proof (cases "Patient_init ?kw")
    case (Inl e)
    with u Cons item have "r = Inl e \<and> data' = data" by (simp add: Let_def)
    then show ?thesis by blast
  next
    case (Inr p)
    show ?thesis
    proof (cases "model_dump p")
      case (Inl e)
      with u Cons item \<open>Patient_init ?kw = Inr p\<close> have "r = Inl e \<and> data' = data"
        by (simp add: Let_def)
      then show ?thesis by blast
    next
      case dumped: (Inr d)
      then have d: "d = model_dump_exclude_id p" by (rule model_dump_Inr)
      from u Cons item \<open>Patient_init ?kw = Inr p\<close> dumped
      have "r = Inr (JSONResponse 200 ''patient_updated'') \<and>
          data' = AList.update patient_id (model_dump_exclude_id p) data"
        unfolding d by (simp add: Let_def)
      with \<open>Patient_init ?kw = Inr p\<close> Cons show ?thesis by blast
    qed
  qed
qed

subsection \<open>Written records have the stored shape\<close>

text \<open>
  Claim C10. Every successful create and every successful update that has a field to apply
  stores, under the patient's id, the dump of a valid patient without its id: an object with
  exactly the keys \<open>name\<close>, \<open>city\<close>, \<open>age\<close>, \<open>gender\<close>, \<open>height\<close>, \<open>weight\<close>, \<open>bmi\<close>, \<open>verdict\<close>,
  whose \<open>bmi\<close> and \<open>verdict\<close> are the computed values, and no \<open>id\<close>. When every stored object
  has this shape, it has it again after create, update and delete; an update without
  fields stores nothing.
\<close>

theorem stored_shape_of_written_records:
  "(post_create data body = (Inr resp, data') \<longrightarrow>
      (\<exists>patient. Patient_init body = Inr patient \<and>
         map_of data' (id_p patient) = Some (model_dump_exclude_id patient) \<and>
         stored_shape (model_dump_exclude_id patient))) \<and>
   (update_patient data patient_id patient_update = (Inr resp, data') \<and>
    model_dump_exclude_unset patient_update \<noteq> [] \<longrightarrow>
      (\<exists>p. map_of data' patient_id = Some (model_dump_exclude_id p) \<and>
         stored_shape (model_dump_exclude_id p))) \<and>
   (stored_shape info \<longrightarrow>
      map fst info = stored_keys \<and> ''id'' \<notin> fst ` set info \<and>
      (\<exists>p. info = model_dump_exclude_id p \<and> map_of info ''bmi'' = Some (JFloat (bmi p)) \<and>
         map_of info ''verdict'' = Some (JStr (verdict p)))) \<and>
   (all_stored_shape data \<longrightarrow>
      all_stored_shape (snd (post_create data body)) \<and>
      all_stored_shape (snd (update_patient data patient_id patient_update)) \<and>
      all_stored_shape (snd (put_edit data patient_id body)) \<and>
      all_stored_shape (snd (delete_patient data patient_id)))"
proof -
  have create: "\<exists>patient. Patient_init body = Inr patient \<and>
         map_of data' (id_p patient) = Some (model_dump_exclude_id patient) \<and>
         stored_shape (model_dump_exclude_id patient)"
    if c: "post_create data body = (Inr resp, data')"
  proof (cases "Patient_init body")
    case (Inl e)
    with c show ?thesis by (simp add: post_create_def)
  next
    case (Inr patient)
    with c have cp: "create_patient data patient = (Inr resp, data')"
      by (simp add: post_create_def)
    then have "data' = AList.update (id_p patient) (model_dump_exclude_id patient) data"
      by (cases "bmi_raises patient") (simp_all add: create_patient_def model_dump_def split: if_splits)
    then have "map_of data' (id_p patient) = Some (model_dump_exclude_id patient)"
      by (simp add: update_conv')
    with Inr stored_shape_dump [OF Inr] show ?thesis by blast
  qed
  have update: "\<exists>p. map_of data' patient_id = Some (model_dump_exclude_id p) \<and>
         stored_shape (model_dump_exclude_id p)"
    if u: "update_patient data patient_id patient_update = (Inr resp, data')"
      and ne: "model_dump_exclude_unset patient_update \<noteq> []"
  proof (cases "map_of data patient_id")
    case None
    with u show ?thesis by (simp add: update_patient_def)
  next
    case (Some existing)
    with u have "update_fields (model_dump_exclude_unset patient_update) existing data patient_id =
        (Inr resp, data')" by (simp add: update_patient_def)
    from update_fields_cases [OF this] ne
    obtain p kwargs where "Patient_init kwargs = Inr p"
      and d: "data' = AList.update patient_id (model_dump_exclude_id p) data" by blast
    then have "stored_shape (model_dump_exclude_id p)" by (simp add: stored_shape_dump)
    moreover from d have "map_of data' patient_id = Some (model_dump_exclude_id p)"
      by (simp add: update_conv')
    ultimately show ?thesis by blast
  qed
  have shape: "map fst info = stored_keys \<and> ''id'' \<notin> fst ` set info \<and>
      (\<exists>p. info = model_dump_exclude_id p \<and> map_of info ''bmi'' = Some (JFloat (bmi p)) \<and>
         map_of info ''verdict'' = Some (JStr (verdict p)))"
    if "stored_shape info"
  proof -
    from that obtain p where i: "info = model_dump_exclude_id p"
      using stored_shape_is_dump by blast
    have k: "map fst info = stored_keys" unfolding i by (rule keys_of_dump)
    have "''id'' \<notin> set (map fst info)" unfolding k by (simp add: stored_keys_def)
    then have n: "''id'' \<notin> fst ` set info" by simp
    have b: "map_of info ''bmi'' = Some (JFloat (bmi p))"
      unfolding i by (simp add: model_dump_exclude_id_def)
    have v: "map_of info ''verdict'' = Some (JStr (verdict p))"
      unfolding i by (simp add: model_dump_exclude_id_def)
    from k n i b v show ?thesis by blast
  qed
  have upd: "all_stored_shape (snd (update_patient data patient_id pu))"
    if a: "all_stored_shape data" for pu
  proof (cases "map_of data patient_id")
    case None
    with a show ?thesis by (simp add: update_patient_def)
  next
    case (Some existing)
    obtain r d where rd: "update_fields (model_dump_exclude_unset pu) existing data patient_id = (r, d)"
      by (cases "update_fields (model_dump_exclude_unset pu) existing data patient_id")
    from update_fields_cases [OF rd] a have "all_stored_shape d"
      by (auto simp: all_stored_shape_update stored_shape_dump)
    with Some rd show ?thesis by (simp add: update_patient_def)
  qed
  have pres: "all_stored_shape (snd (post_create data body)) \<and>
      all_stored_shape (snd (update_patient data patient_id patient_update)) \<and>
      all_stored_shape (snd (put_edit data patient_id body)) \<and>
      all_stored_shape (snd (delete_patient data patient_id))"
    if a: "all_stored_shape data"
  proof -
    have 1: "all_stored_shape (snd (post_create data body))"
    proof (cases "Patient_init body")
      case (Inl e)
      with a show ?thesis by (simp add: post_create_def)
    next
      case (Inr patient)
      have "all_stored_shape (snd (create_patient data patient))"
        using a stored_shape_dump [OF Inr]
        by (cases "bmi_raises patient")
          (simp_all add: create_patient_def model_dump_def all_stored_shape_update)
      with Inr show ?thesis by (simp add: post_create_def)
    qed
    have 2: "all_stored_shape (snd (update_patient data patient_id patient_update))"
      using a by (rule upd)
    have 3: "all_stored_shape (snd (put_edit data patient_id body))"
      using a upd by (cases "PatientUpdate_init body") (simp_all add: put_edit_def)
    have 4: "all_stored_shape (snd (delete_patient data patient_id))"
      using a by (simp add: delete_patient_def all_stored_shape_delete)
    from 1 2 3 4 show ?thesis by (intro conjI)
  qed
  show ?thesis
  proof (intro conjI impI)
    assume "post_create data body = (Inr resp, data')"
    then show "\<exists>patient. Patient_init body = Inr patient \<and>
         map_of data' (id_p patient) = Some (model_dump_exclude_id patient) \<and>
         stored_shape (model_dump_exclude_id patient)" by (rule create)
  next
    assume "update_patient data patient_id patient_update = (Inr resp, data') \<and>
      model_dump_exclude_unset patient_update \<noteq> []"
    then show "\<exists>p. map_of data' patient_id = Some (model_dump_exclude_id p) \<and>
         stored_shape (model_dump_exclude_id p)" using update by blast
  next
    assume s: "stored_shape info"
    from shape [OF s] show "map fst info = stored_keys" by (elim conjE)
    from shape [OF s] show "''id'' \<notin> fst ` set info" by (elim conjE)
    from shape [OF s] show "\<exists>p. info = model_dump_exclude_id p \<and>
        map_of info ''bmi'' = Some (JFloat (bmi p)) \<and>
        map_of info ''verdict'' = Some (JStr (verdict p))" by (elim conjE)
  next
    assume a: "all_stored_shape data"
    from pres [OF a] show "all_stored_shape (snd (post_create data body))" by (elim conjE)
    from pres [OF a] show "all_stored_shape (snd (update_patient data patient_id patient_update))"
      by (elim conjE)
    from pres [OF a] show "all_stored_shape (snd (put_edit data patient_id body))" by (elim conjE)
    from pres [OF a] show "all_stored_shape (snd (delete_patient data patient_id))" by (elim conjE)
  qed
qed

theorem stored_shape_of_written_records_witness:
  "post_create [] asha_body =
     (Inr (JSONResponse 201 ''Patient created successfully''), asha_data) \<and>
   (\<exists>patient. Patient_init asha_body = Inr patient \<and>
      map_of asha_data (id_p patient) = Some (model_dump_exclude_id patient) \<and>
      stored_shape (model_dump_exclude_id patient)) \<and>
   update_patient asha_data ''P001'' (empty_patch\<lparr>height_u := Given (Some (15 / 10))\<rparr>) =
     (Inr (JSONResponse 200 ''patient_updated''),
      [(''P001'', stored_info ''Asha'' ''Pune'' (15 / 10) 55 (2444 / 100) ''Normal'')]) \<and>
   (\<exists>p. map_of [(''P001'', stored_info ''Asha'' ''Pune'' (15 / 10) 55 (2444 / 100) ''Normal'')] ''P001'' =
          Some (model_dump_exclude_id p) \<and> stored_shape (model_dump_exclude_id p)) \<and>
   stored_shape asha_info \<and> map fst asha_info = stored_keys \<and> ''id'' \<notin> fst ` set asha_info \<and>
   all_stored_shape asha_data \<and>
   all_stored_shape (snd (post_create asha_data asha_body)) \<and>
   all_stored_shape (snd (delete_patient asha_data ''P001''))"
proof -
  have c: "post_create [] asha_body =
      (Inr (JSONResponse 201 ''Patient created successfully''), asha_data)" by code_simp
  have u: "update_patient asha_data ''P001'' (empty_patch\<lparr>height_u := Given (Some (15 / 10))\<rparr>) =
      (Inr (JSONResponse 200 ''patient_updated''),
       [(''P001'', stored_info ''Asha'' ''Pune'' (15 / 10) 55 (2444 / 100) ''Normal'')])"
    by code_simp
  have ne: "model_dump_exclude_unset (empty_patch\<lparr>height_u := Given (Some (15 / 10))\<rparr>) \<noteq> []"
    by code_simp
  have s: "stored_shape asha_info" by code_simp
  have a: "all_stored_shape asha_data" by code_simp
  note t1 = stored_shape_of_written_records [where data = "[]" and body = asha_body
      and resp = "JSONResponse 201 ''Patient created successfully''" and data' = asha_data
      and info = asha_info]
  note t2 = stored_shape_of_written_records [where data = asha_data and body = asha_body
      and patient_id = "''P001''"
      and patient_update = "empty_patch\<lparr>height_u := Given (Some (15 / 10))\<rparr>"
      and resp = "JSONResponse 200 ''patient_updated''"
      and data' = "[(''P001'', stored_info ''Asha'' ''Pune'' (15 / 10) 55 (2444 / 100) ''Normal'')]"]
  from t1 c have w1: "\<exists>patient. Patient_init asha_body = Inr patient \<and>
      map_of asha_data (id_p patient) = Some (model_dump_exclude_id patient) \<and>
      stored_shape (model_dump_exclude_id patient)" by blast
  from t2 u ne have w2: "\<exists>p. map_of [(''P001'', stored_info ''Asha'' ''Pune'' (15 / 10) 55 (2444 / 100) ''Normal'')] ''P001'' =
          Some (model_dump_exclude_id p) \<and> stored_shape (model_dump_exclude_id p)" by blast
  from t1 s have w3: "map fst asha_info = stored_keys" by blast
  from t1 s have w4: "''id'' \<notin> fst ` set asha_info" by blast
  from t2 a have w5: "all_stored_shape (snd (post_create asha_data asha_body))" by blast
  from t2 a have w6: "all_stored_shape (snd (delete_patient asha_data ''P001''))" by blast
  from c w1 u w2 s w3 w4 a w5 w6 show ?thesis by (intro conjI)
qed

subsection \<open>Update and validation\<close>

lemma PatientUpdate_init_Inr_iff:
  "PatientUpdate_init body = Inr pu \<longleftrightarrow>
     optional as_str (\<lambda>_. True) body ''name'' = Some (name_u pu) \<and>
     optional as_str (\<lambda>_. True) body ''city'' = Some (city_u pu) \<and>
     optional as_int (\<lambda>a. 0 < a) body ''age'' = Some (age_u pu) \<and>
     optional as_str (\<lambda>g. g \<in> set gender_literals) body ''gender'' = Some (gender_u pu) \<and>
     optional as_float (\<lambda>h. 0 < h) body ''height'' = Some (height_u pu) \<and>
     optional as_float (\<lambda>w. 0 < w) body ''weight'' = Some (weight_u pu)"
  unfolding PatientUpdate_init_def
  by (cases "optional as_str (\<lambda>_. True) body ''name''";
      cases "optional as_str (\<lambda>_. True) body ''city''";
      cases "optional as_int (\<lambda>a. 0 < a) body ''age''";
      cases "optional as_str (\<lambda>g. g \<in> set gender_literals) body ''gender''";
      cases "optional as_float (\<lambda>h. 0 < h) body ''height''";
      cases "optional as_float (\<lambda>w. 0 < w) body ''weight''"; cases pu; simp; blast?)

lemma PatientUpdate_init_cases:
  "PatientUpdate_init body = Inl ValidationError \<or> (\<exists>pu. PatientUpdate_init body = Inr pu)"
  unfolding PatientUpdate_init_def
  by (cases "optional as_str (\<lambda>_. True) body ''name''";
      cases "optional as_str (\<lambda>_. True) body ''city''";
      cases "optional as_int (\<lambda>a. 0 < a) body ''age''";
      cases "optional as_str (\<lambda>g. g \<in> set gender_literals) body ''gender''";
      cases "optional as_float (\<lambda>h. 0 < h) body ''height''";
      cases "optional as_float (\<lambda>w. 0 < w) body ''weight''"; simp)

lemma optional_rejects:
  "map_of body k = Some v \<Longrightarrow> conv v = Some x \<Longrightarrow> \<not> ok x \<Longrightarrow> v \<noteq> JNull \<Longrightarrow>
     optional conv ok body k = None"
  by (cases v) (simp_all add: optional_def)

lemma optional_accepts:
  "map_of body k = Some v \<Longrightarrow> conv v = Some x \<Longrightarrow> ok x \<Longrightarrow> v \<noteq> JNull \<Longrightarrow>
     optional conv ok body k = Some (Given (Some x))"
  by (cases v) (simp_all add: optional_def)

lemma optional_unset: "map_of body k = None \<Longrightarrow> optional conv ok body k = Some Unset"
  by (simp add: optional_def)

text \<open>A body with a field that \<open>PatientUpdate\<close> rejects never reaches the handler.\<close>

lemma put_edit_rejected:
  assumes "\<And>pu. PatientUpdate_init body \<noteq> Inr pu"
  shows "put_edit data patient_id body = (Inl RequestValidationError, data)"
proof -
  from assms PatientUpdate_init_cases [of body] have "PatientUpdate_init body = Inl ValidationError"
    by blast
  then show ?thesis by (simp add: put_edit_def)
qed

lemma update_fields_failure_keeps_data:
  "fst (update_fields items info data patient_id) = Inl e \<Longrightarrow>
     snd (update_fields items info data patient_id) = data"
proof -
  assume f: "fst (update_fields items info data patient_id) = Inl e"
  obtain r d where rd: "update_fields items info data patient_id = (r, d)"
    by (cases "update_fields items info data patient_id")
  from update_fields_cases [OF rd] f rd show ?thesis by auto
qed

lemma put_edit_failure_keeps_data:
  assumes "fst (put_edit data patient_id body) = Inl e"
  shows "snd (put_edit data patient_id body) = data"
proof (cases "PatientUpdate_init body")
  case (Inl e')
  then show ?thesis by (simp add: put_edit_def)
next
  case (Inr pu)
  show ?thesis
  proof (cases "map_of data patient_id")
    case None
    with Inr show ?thesis by (simp add: put_edit_def update_patient_def)
  next
    case (Some info)
    with Inr assms have "fst (update_fields (model_dump_exclude_unset pu) info data patient_id) = Inl e"
      by (simp add: put_edit_def update_patient_def)
    then have "snd (update_fields (model_dump_exclude_unset pu) info data patient_id) = data"
      by (rule update_fields_failure_keeps_data)
    with Inr Some show ?thesis by (simp add: put_edit_def update_patient_def)
  qed
qed

text \<open>A first item that sets \<open>age\<close> to 120 or more fails the validation of the merged record.\<close>

lemma update_fields_age_too_large:
  assumes "120 \<le> a"
  shows "update_fields ((''age'', JInt a) # rest) info data patient_id = (Inl ValidationError, data)"
proof -
  let ?kw = "AList.update ''id'' (JStr patient_id) (AList.update ''age'' (JInt a) info)"
  have r: "required as_int ?kw ''age'' = Some a"
    by (simp add: required_def update_conv')
  have "Patient_init ?kw \<noteq> Inr p" for p
  proof
    assume i: "Patient_init ?kw = Inr p"
    from i have "required as_int ?kw ''age'' = Some (age p)"
      unfolding Patient_init_Inr_iff by (elim conjE)
    moreover from i have "age p < 120" by (rule Patient_init_valid)
    ultimately show False using r assms by simp
  qed
  with Patient_init_cases [of ?kw] have "Patient_init ?kw = Inl ValidationError" by blast
  then show ?thesis by (simp add: Let_def)
qed


text \<open>
  Claim C8, amended. A patch with a field that violates a constraint of \<open>PatientUpdate\<close>
  (\<open>age > 0\<close>, \<open>gender\<close> one of the three literals, \<open>height > 0\<close>, \<open>weight > 0\<close>) is rejected
  with a validation error before the handler runs. A patch that passes this validation
  and whose first field is \<open>age\<close> with a value of 120 or more fails with \<open>ValidationError\<close>
  when the merged record is validated. Every update that fails leaves the collection as
  it is. (There is no constraint on \<open>name\<close>.)
\<close>

theorem update_rejects_constraint_violations:
  "(map_of body ''age'' = Some va \<and> as_int va = Some a \<and> a \<le> 0 \<longrightarrow>
      put_edit data patient_id body = (Inl RequestValidationError, data)) \<and>
   (map_of body ''gender'' = Some (JStr g) \<and> g \<notin> set gender_literals \<longrightarrow>
      put_edit data patient_id body = (Inl RequestValidationError, data)) \<and>
   (map_of body ''height'' = Some vh \<and> as_float vh = Some h \<and> h \<le> 0 \<longrightarrow>
      put_edit data patient_id body = (Inl RequestValidationError, data)) \<and>
   (map_of body ''weight'' = Some vw \<and> as_float vw = Some w \<and> w \<le> 0 \<longrightarrow>
      put_edit data patient_id body = (Inl RequestValidationError, data)) \<and>
   (patient_id \<in> fst ` set data \<and> PatientUpdate_init body = Inr patient_update \<and>
    map_of body ''name'' = None \<and> map_of body ''city'' = None \<and>
    map_of body ''age'' = Some va \<and> as_int va = Some a \<and> 120 \<le> a \<longrightarrow>
      put_edit data patient_id body = (Inl ValidationError, data) \<and>
      update_patient data patient_id patient_update = (Inl ValidationError, data)) \<and>
   (fst (put_edit data patient_id body) = Inl e \<longrightarrow> snd (put_edit data patient_id body) = data)"
proof (intro conjI impI)
  assume "map_of body ''age'' = Some va \<and> as_int va = Some a \<and> a \<le> 0"
  then have m: "map_of body ''age'' = Some va" and c: "as_int va = Some a" and v: "\<not> 0 < a"
    by simp_all
  from c have "va \<noteq> JNull" by auto
  with m c v have "optional as_int (\<lambda>a. 0 < a) body ''age'' = None" by (rule optional_rejects)
  then have "PatientUpdate_init body \<noteq> Inr pu" for pu
    unfolding PatientUpdate_init_Inr_iff by simp
  then show "put_edit data patient_id body = (Inl RequestValidationError, data)"
    by (rule put_edit_rejected)
next
  assume "map_of body ''gender'' = Some (JStr g) \<and> g \<notin> set gender_literals"
  then have m: "map_of body ''gender'' = Some (JStr g)" and v: "\<not> g \<in> set gender_literals"
    by simp_all
  have c: "as_str (JStr g) = Some g" by simp
  have "JStr g \<noteq> JNull" by simp
  with m c v have "optional as_str (\<lambda>g. g \<in> set gender_literals) body ''gender'' = None"
    by (rule optional_rejects)
  then have "PatientUpdate_init body \<noteq> Inr pu" for pu
    unfolding PatientUpdate_init_Inr_iff by simp
  then show "put_edit data patient_id body = (Inl RequestValidationError, data)"
    by (rule put_edit_rejected)
next
  assume "map_of body ''height'' = Some vh \<and> as_float vh = Some h \<and> h \<le> 0"
  then have m: "map_of body ''height'' = Some vh" and c: "as_float vh = Some h" and v: "\<not> 0 < h"
    by simp_all
  from c have "vh \<noteq> JNull" by auto
  with m c v have "optional as_float (\<lambda>h. 0 < h) body ''height'' = None" by (rule optional_rejects)
  then have "PatientUpdate_init body \<noteq> Inr pu" for pu
    unfolding PatientUpdate_init_Inr_iff by simp
  then show "put_edit data patient_id body = (Inl RequestValidationError, data)"
    by (rule put_edit_rejected)
next
  assume "map_of body ''weight'' = Some vw \<and> as_float vw = Some w \<and> w \<le> 0"
  then have m: "map_of body ''weight'' = Some vw" and c: "as_float vw = Some w" and v: "\<not> 0 < w"
    by simp_all
  from c have "vw \<noteq> JNull" by auto
  with m c v have "optional as_float (\<lambda>w. 0 < w) body ''weight'' = None" by (rule optional_rejects)
  then have "PatientUpdate_init body \<noteq> Inr pu" for pu
    unfolding PatientUpdate_init_Inr_iff by simp
  then show "put_edit data patient_id body = (Inl RequestValidationError, data)"
    by (rule put_edit_rejected)
next
  assume h: "patient_id \<in> fst ` set data \<and> PatientUpdate_init body = Inr patient_update \<and>
    map_of body ''name'' = None \<and> map_of body ''city'' = None \<and>
    map_of body ''age'' = Some va \<and> as_int va = Some a \<and> 120 \<le> a"
  then have k: "patient_id \<in> fst ` set data" and i: "PatientUpdate_init body = Inr patient_update"
    and n: "map_of body ''name'' = None" and c: "map_of body ''city'' = None"
    and m: "map_of body ''age'' = Some va" and ca: "as_int va = Some a" and big: "120 \<le> a"
    by simp_all
  from k obtain info where info: "map_of data patient_id = Some info"
    by (metis map_of_eq_None_iff not_Some_eq)
  from ca have nn: "va \<noteq> JNull" by auto
  from big have pos: "0 < a" by simp
  from i have f: "optional as_str (\<lambda>_. True) body ''name'' = Some (name_u patient_update)"
      "optional as_str (\<lambda>_. True) body ''city'' = Some (city_u patient_update)"
      "optional as_int (\<lambda>a. 0 < a) body ''age'' = Some (age_u patient_update)"
    unfolding PatientUpdate_init_Inr_iff by simp_all
  from f(1) have un: "name_u patient_update = Unset" unfolding optional_unset [OF n] by simp
  from f(2) have uc: "city_u patient_update = Unset" unfolding optional_unset [OF c] by simp
  have "optional as_int (\<lambda>a. 0 < a) body ''age'' = Some (Given (Some a))"
    using m ca pos nn by (rule optional_accepts)
  with f(3) have ua: "age_u patient_update = Given (Some a)" by simp
  have d: "model_dump_exclude_unset patient_update =
      (''age'', JInt a) # (dump_field ''gender'' JStr (gender_u patient_update) @
        dump_field ''height'' JFloat (height_u patient_update) @
        dump_field ''weight'' JFloat (weight_u patient_update))"
    by (simp add: model_dump_exclude_unset_def un uc ua)
  have u: "update_patient data patient_id patient_update = (Inl ValidationError, data)"
    unfolding update_patient_def info d option.case using big by (rule update_fields_age_too_large)
  then show "update_patient data patient_id patient_update = (Inl ValidationError, data)" .
  from u i show "put_edit data patient_id body = (Inl ValidationError, data)"
    by (simp add: put_edit_def)
next
  assume "fst (put_edit data patient_id body) = Inl e"
  then show "snd (put_edit data patient_id body) = data" by (rule put_edit_failure_keeps_data)
qed

text \<open>
  Claim C8 as stated fails: a patch that sets \<open>name\<close> to the empty string is accepted and
  the empty name is stored.
\<close>

theorem update_accepts_empty_name:
  "fst (put_edit asha_data ''P001'' [(''name'', JStr '''')]) =
     Inr (JSONResponse 200 ''patient_updated'') \<and>
   snd (put_edit asha_data ''P001'' [(''name'', JStr '''')]) =
     [(''P001'', stored_info '''' ''Pune'' (16 / 10) 55 (2148 / 100) ''Normal'')] \<and>
   snd (put_edit asha_data ''P001'' [(''name'', JStr '''')]) \<noteq> asha_data"
  by code_simp

theorem update_rejects_constraint_violations_witness:
  "put_edit asha_data ''P001'' [(''age'', JInt 0)] = (Inl RequestValidationError, asha_data) \<and>
   put_edit asha_data ''P001'' [(''gender'', JStr ''unknown'')] =
     (Inl RequestValidationError, asha_data) \<and>
   put_edit asha_data ''P001'' [(''height'', JFloat 0)] = (Inl RequestValidationError, asha_data) \<and>
   put_edit asha_data ''P001'' [(''weight'', JInt (- 1))] = (Inl RequestValidationError, asha_data) \<and>
   PatientUpdate_init [(''age'', JInt 150)] = Inr (empty_patch\<lparr>age_u := Given (Some 150)\<rparr>) \<and>
   put_edit asha_data ''P001'' [(''age'', JInt 150)] = (Inl ValidationError, asha_data) \<and>
   update_patient asha_data ''P001'' (empty_patch\<lparr>age_u := Given (Some 150)\<rparr>) =
     (Inl ValidationError, asha_data) \<and>
   snd (put_edit asha_data ''P001'' [(''age'', JInt 150)]) = asha_data"
proof -
  note t = update_rejects_constraint_violations [where data = asha_data and patient_id = "''P001''"]
  have w1: "put_edit asha_data ''P001'' [(''age'', JInt 0)] = (Inl RequestValidationError, asha_data)"
    using t [where body = "[(''age'', JInt 0)]" and va = "JInt 0" and a = 0] by simp
  have g: "''unknown'' \<notin> set gender_literals" by (simp add: gender_literals_def)
  have w2: "put_edit asha_data ''P001'' [(''gender'', JStr ''unknown'')] =
      (Inl RequestValidationError, asha_data)"
    using t [where body = "[(''gender'', JStr ''unknown'')]" and g = "''unknown''"] g by simp
  have w3: "put_edit asha_data ''P001'' [(''height'', JFloat 0)] =
      (Inl RequestValidationError, asha_data)"
    using t [where body = "[(''height'', JFloat 0)]" and vh = "JFloat 0" and h = 0] by simp
  have c4: "as_float (JInt (- 1)) = Some (- 1)" by code_simp
  have w4: "put_edit asha_data ''P001'' [(''weight'', JInt (- 1))] =
      (Inl RequestValidationError, asha_data)"
    using t [where body = "[(''weight'', JInt (- 1))]" and vw = "JInt (- 1)" and w = "- 1"] c4
    by simp
  have k: "''P001'' \<in> fst ` set asha_data" by (simp add: asha_data_def)
  have i: "PatientUpdate_init [(''age'', JInt 150)] = Inr (empty_patch\<lparr>age_u := Given (Some 150)\<rparr>)"
    by code_simp
  note t5 = t [where body = "[(''age'', JInt 150)]" and va = "JInt 150" and a = 150
      and patient_update = "empty_patch\<lparr>age_u := Given (Some 150)\<rparr>" and e = ValidationError]
  have w5: "put_edit asha_data ''P001'' [(''age'', JInt 150)] = (Inl ValidationError, asha_data)"
    using t5 k i by simp
  have w6: "update_patient asha_data ''P001'' (empty_patch\<lparr>age_u := Given (Some 150)\<rparr>) =
      (Inl ValidationError, asha_data)"
    using t5 k i by simp
  from w5 have f: "fst (put_edit asha_data ''P001'' [(''age'', JInt 150)]) = Inl ValidationError"
    by simp
  from t5 f have w7: "snd (put_edit asha_data ''P001'' [(''age'', JInt 150)]) = asha_data"
    by blast
  from w1 w2 w3 w4 i w5 w6 w7 show ?thesis by (intro conjI)
qed

text \<open>
  Claim C1 says that an update applies every field of the patch, then derives \<open>bmi\<close> and
  \<open>verdict\<close> and saves the merged record. The handler does not: for the patch that sets
  \<open>city\<close> and \<open>weight\<close> it applies \<open>city\<close>, saves and returns; \<open>weight\<close> stays 55 and \<open>bmi\<close>
  stays 21.48.
\<close>

theorem update_patient_applies_first_field_only:
  "put_edit asha_data ''P001'' [(''city'', JStr ''Mumbai''), (''weight'', JInt 70)] =
     (Inr (JSONResponse 200 ''patient_updated''),
      [(''P001'', stored_info ''Asha'' ''Mumbai'' (16 / 10) 55 (2148 / 100) ''Normal'')])"
  by code_simp

subsection \<open>Sorting\<close>

lemma list_sort_mset: "mset (list_sort key reverse xs) = mset xs"
  by (simp add: list_sort_def)

lemma list_sort_ascending: "sorted (map key (list_sort key False xs))"
  by (simp add: list_sort_def)

lemma list_sort_descending: "sorted (rev (map key (list_sort key True xs)))"
  by (simp add: list_sort_def rev_map [symmetric])

lemma list_sort_stable:
  "filter (\<lambda>x. key x = c) (list_sort key reverse xs) = filter (\<lambda>x. key x = c) xs"
proof (cases reverse)
  case True
  have "filter (\<lambda>x. key x = c) (rev (sort_key key (rev xs))) =
      rev (filter (\<lambda>x. key x = c) (sort_key key (rev xs)))"
    by (simp only: rev_filter)
  also have "\<dots> = rev (filter (\<lambda>x. key x = c) (rev xs))"
    by (simp only: sort_key_stable)
  also have "\<dots> = filter (\<lambda>x. key x = c) xs"
    by (simp only: rev_filter rev_rev_ident)
  finally show ?thesis using True by (simp add: list_sort_def)
next
  case False
  then show ?thesis by (simp add: list_sort_def sort_key_stable)
qed

text \<open>The key that \<open>sort_patients\<close> hands to \<open>sorted\<close>, read as a number.\<close>

lemma number_key_dict_get: "number_key (dict_get x sort_by (JInt 0)) = sort_value sort_by x"
  by (simp add: dict_get_def sort_value_def split: option.split)

lemma is_number_dict_get:
  "is_number (dict_get x sort_by (JInt 0)) = numeric_or_missing sort_by x"
  by (simp add: dict_get_def numeric_or_missing_def split: option.split)

lemma py_sorted_numbers:
  assumes "list_all (numeric_or_missing sort_by) xs"
  shows "py_sorted xs (\<lambda>x. dict_get x sort_by (JInt 0)) reverse =
           Inr (list_sort (sort_value sort_by) reverse xs)"
proof -
  have k: "(\<lambda>x. number_key (dict_get x sort_by (JInt 0))) = sort_value sort_by"
    by (rule ext) (rule number_key_dict_get)
  have n: "(\<lambda>x. is_number (dict_get x sort_by (JInt 0))) = numeric_or_missing sort_by"
    by (rule ext) (rule is_number_dict_get)
  show ?thesis unfolding py_sorted_def k n using assms by simp
qed

lemma sort_patients_valid:
  assumes "sort_by \<in> set valid_fields" and "order \<in> set [''asc'', ''desc'']"
    and "list_all (numeric_or_missing sort_by) (map snd data)"
  shows "sort_patients data sort_by order =
           (Inr (list_sort (sort_value sort_by) (order = ''desc'') (map snd data)), data)"
  using assms(1,2) unfolding sort_patients_def Let_def py_sorted_numbers [OF assms(3)]
  by simp

text \<open>
  Claim C5. Sort fails with the error for an invalid key (\<open>HTTPException\<close>, status 400)
  when the key is not one of \<open>height\<close>, \<open>weight\<close>, \<open>bmi\<close>, and with the error for an invalid
  direction (status 400) when the direction is not \<open>asc\<close> or \<open>desc\<close>; the key is tested
  first, so of two invalid arguments the key is the one reported. For a valid key and
  direction, over records whose value for the key is a number or missing, the result is a
  rearrangement of the records, non-decreasing in the key for \<open>asc\<close> and non-increasing for
  \<open>desc\<close>, records of equal key in their original order, a record without the key ordered
  as 0.
\<close>

theorem sort_patients_checks_and_order:
  "(sort_by \<notin> set [''height'', ''weight'', ''bmi''] \<longrightarrow>
      sort_patients data sort_by order =
        (Inl (HTTPException 400 ''Invalid field select from {valid_fields}''), data)) \<and>
   (sort_by \<in> set [''height'', ''weight'', ''bmi''] \<and> order \<notin> set [''asc'', ''desc''] \<longrightarrow>
      sort_patients data sort_by order =
        (Inl (HTTPException 400 ''Invalid order, select either asc or desc''), data)) \<and>
   (order \<notin> set [''asc'', ''desc''] \<longrightarrow>
      (\<exists>detail. sort_patients data sort_by order = (Inl (HTTPException 400 detail), data))) \<and>
   (sort_by \<in> set [''height'', ''weight'', ''bmi''] \<and> order \<in> set [''asc'', ''desc''] \<and>
    list_all (numeric_or_missing sort_by) (map snd data) \<longrightarrow>
      (\<exists>result. sort_patients data sort_by order = (Inr result, data) \<and>
         mset result = mset (map snd data) \<and>
         (order = ''asc'' \<longrightarrow> sorted (map (sort_value sort_by) result)) \<and>
         (order = ''desc'' \<longrightarrow> sorted (rev (map (sort_value sort_by) result))) \<and>
         (\<forall>c. filter (\<lambda>x. sort_value sort_by x = c) result =
               filter (\<lambda>x. sort_value sort_by x = c) (map snd data)))) \<and>
   (map_of x sort_by = None \<longrightarrow> sort_value sort_by x = 0 \<and> numeric_or_missing sort_by x)"
proof (intro conjI impI)
  assume "sort_by \<notin> set [''height'', ''weight'', ''bmi'']"
  then show "sort_patients data sort_by order =
      (Inl (HTTPException 400 ''Invalid field select from {valid_fields}''), data)"
    by (simp add: sort_patients_def valid_fields_def)
next
  assume "sort_by \<in> set [''height'', ''weight'', ''bmi''] \<and> order \<notin> set [''asc'', ''desc'']"
  then show "sort_patients data sort_by order =
      (Inl (HTTPException 400 ''Invalid order, select either asc or desc''), data)"
    by (simp add: sort_patients_def valid_fields_def)
next
  assume "order \<notin> set [''asc'', ''desc'']"
  then show "\<exists>detail. sort_patients data sort_by order = (Inl (HTTPException 400 detail), data)"
    by (simp add: sort_patients_def)
next
  assume "sort_by \<in> set [''height'', ''weight'', ''bmi''] \<and> order \<in> set [''asc'', ''desc''] \<and>
    list_all (numeric_or_missing sort_by) (map snd data)"
  then have s: "sort_by \<in> set valid_fields" and d: "order \<in> set [''asc'', ''desc'']"
    and n: "list_all (numeric_or_missing sort_by) (map snd data)"
    by (simp_all add: valid_fields_def)
  let ?result = "list_sort (sort_value sort_by) (order = ''desc'') (map snd data)"
  have r: "sort_patients data sort_by order = (Inr ?result, data)"
    using s d n by (rule sort_patients_valid)
  have m: "mset ?result = mset (map snd data)" by (rule list_sort_mset)
  have a: "order = ''asc'' \<longrightarrow> sorted (map (sort_value sort_by) ?result)"
  proof
    assume "order = ''asc''"
    then have "(order = ''desc'') = False" by simp
    then show "sorted (map (sort_value sort_by) ?result)"
      by (simp only: list_sort_ascending)
  qed
  have b: "order = ''desc'' \<longrightarrow> sorted (rev (map (sort_value sort_by) ?result))"
  proof
    assume "order = ''desc''"
    then have "(order = ''desc'') = True" by simp
    then show "sorted (rev (map (sort_value sort_by) ?result))"
      by (simp only: list_sort_descending)
  qed
  have st: "\<forall>c. filter (\<lambda>x. sort_value sort_by x = c) ?result =
      filter (\<lambda>x. sort_value sort_by x = c) (map snd data)"
    by (intro allI) (rule list_sort_stable)
  from r m a b st
  show "\<exists>result. sort_patients data sort_by order = (Inr result, data) \<and>
         mset result = mset (map snd data) \<and>
         (order = ''asc'' \<longrightarrow> sorted (map (sort_value sort_by) result)) \<and>
         (order = ''desc'' \<longrightarrow> sorted (rev (map (sort_value sort_by) result))) \<and>
         (\<forall>c. filter (\<lambda>x. sort_value sort_by x = c) result =
               filter (\<lambda>x. sort_value sort_by x = c) (map snd data))"
    by (intro exI [of _ ?result] conjI)
next
  assume "map_of x sort_by = None"
  then show "sort_value sort_by x = 0" by (simp add: sort_value_def)
next
  assume "map_of x sort_by = None"
  then show "numeric_or_missing sort_by x" by (simp add: numeric_or_missing_def)
qed

theorem sort_patients_checks_and_order_witness:
  "sort_patients sort_data ''age'' ''asc'' =
     (Inl (HTTPException 400 ''Invalid field select from {valid_fields}''), sort_data) \<and>
   sort_patients sort_data ''weight'' ''up'' =
     (Inl (HTTPException 400 ''Invalid order, select either asc or desc''), sort_data) \<and>
   list_all (numeric_or_missing ''weight'') (map snd sort_data) \<and>
   sort_patients sort_data ''weight'' ''desc'' =
     (Inr [dev_100, asha_80, chitra_80, bina_no_weight], sort_data) \<and>
   sorted (rev (map (sort_value ''weight'') [dev_100, asha_80, chitra_80, bina_no_weight])) \<and>
   filter (\<lambda>x. sort_value ''weight'' x = 80) [dev_100, asha_80, chitra_80, bina_no_weight] =
     filter (\<lambda>x. sort_value ''weight'' x = 80) (map snd sort_data) \<and>
   sort_patients sort_data ''weight'' ''asc'' =
     (Inr [bina_no_weight, asha_80, chitra_80, dev_100], sort_data) \<and>
   sorted (map (sort_value ''weight'') [bina_no_weight, asha_80, chitra_80, dev_100]) \<and>
   map_of bina_no_weight ''weight'' = None \<and> sort_value ''weight'' bina_no_weight = 0"
proof -
  note t = sort_patients_checks_and_order [where data = sort_data]
  have w1: "sort_patients sort_data ''age'' ''asc'' =
      (Inl (HTTPException 400 ''Invalid field select from {valid_fields}''), sort_data)"
    using t [where sort_by = "''age''" and order = "''asc''"] by simp
  have w2: "sort_patients sort_data ''weight'' ''up'' =
      (Inl (HTTPException 400 ''Invalid order, select either asc or desc''), sort_data)"
    using t [where sort_by = "''weight''" and order = "''up''"] by simp
  have n: "list_all (numeric_or_missing ''weight'') (map snd sort_data)" by code_simp
  have k: "''weight'' \<in> set [''height'', ''weight'', ''bmi'']" by simp
  have d: "''desc'' \<in> set [''asc'', ''desc'']" and a: "''asc'' \<in> set [''asc'', ''desc'']"
    by simp_all
  have ed: "sort_patients sort_data ''weight'' ''desc'' =
      (Inr [dev_100, asha_80, chitra_80, bina_no_weight], sort_data)" by code_simp
  have ea: "sort_patients sort_data ''weight'' ''asc'' =
      (Inr [bina_no_weight, asha_80, chitra_80, dev_100], sort_data)" by code_simp
  from t [where sort_by = "''weight''" and order = "''desc''"] k d n
  obtain result where r: "sort_patients sort_data ''weight'' ''desc'' = (Inr result, sort_data)"
    and s: "sorted (rev (map (sort_value ''weight'') result))"
    and f: "\<forall>c. filter (\<lambda>x. sort_value ''weight'' x = c) result =
              filter (\<lambda>x. sort_value ''weight'' x = c) (map snd sort_data)"
    by blast
  from r ed have "result = [dev_100, asha_80, chitra_80, bina_no_weight]" by simp
  with s f have w3: "sorted (rev (map (sort_value ''weight'') [dev_100, asha_80, chitra_80, bina_no_weight]))"
    and w4: "filter (\<lambda>x. sort_value ''weight'' x = 80) [dev_100, asha_80, chitra_80, bina_no_weight] =
      filter (\<lambda>x. sort_value ''weight'' x = 80) (map snd sort_data)"
    by blast+
  have na: "''asc'' \<noteq> ''desc''" by simp
  from t [where sort_by = "''weight''" and order = "''asc''"] k a n
  obtain result' where r': "sort_patients sort_data ''weight'' ''asc'' = (Inr result', sort_data)"
    and s': "sorted (map (sort_value ''weight'') result')"
    by blast
  from r' ea have "result' = [bina_no_weight, asha_80, chitra_80, dev_100]" by simp
  with s' have w5: "sorted (map (sort_value ''weight'') [bina_no_weight, asha_80, chitra_80, dev_100])"
    by blast
  have m: "map_of bina_no_weight ''weight'' = None" by (simp add: bina_no_weight_def)
  from t [where sort_by = "''weight''" and x = bina_no_weight] m
  have w6: "sort_value ''weight'' bina_no_weight = 0" by blast
  from w1 w2 n ed w3 w4 ea w5 m w6 show ?thesis by (intro conjI)
qed

subsection \<open>Reading the collection\<close>

text \<open>
  Claim C9 as stated fails. In \<open>stale_data\<close> the first record stores \<open>bmi\<close> 99 and \<open>Obese\<close>
  where its \<open>height\<close> 2 and \<open>weight\<close> 80 give 20 and \<open>Normal\<close>: lookup and listing report the
  stored values, and sorting by \<open>bmi\<close> puts the record after the one of \<open>bmi\<close> 25.
\<close>

theorem reads_report_stale_values:
  "view_patient stale_data ''P001'' = (Inr asha_stale, stale_data) \<and>
   view stale_data = (Inr stale_data, stale_data) \<and>
   rederived asha_stale = Some asha_80 \<and> asha_stale \<noteq> asha_80 \<and>
   map_of asha_stale ''bmi'' = Some (JFloat 99) \<and> map_of asha_80 ''bmi'' = Some (JFloat 20) \<and>
   rederived dev_100 = Some dev_100 \<and> map_of dev_100 ''bmi'' = Some (JFloat 25) \<and>
   sort_patients stale_data ''bmi'' ''asc'' = (Inr [dev_100, asha_stale], stale_data)"
  by code_simp

text \<open>
  Claim C9, amended. The operations that read the collection use the persisted \<open>bmi\<close> and
  \<open>verdict\<close> as they are stored: listing returns the stored collection, lookup returns the
  stored object, and sorting by \<open>bmi\<close> orders the records by the stored \<open>bmi\<close>. For an
  object in the shape that create and update write, the stored values are the derived
  ones: validating and dumping it again gives the same object.
\<close>

theorem reads_use_stored_values:
  "view data = (Inr data, data) \<and>
   (map_of data patient_id = Some info \<longrightarrow> view_patient data patient_id = (Inr info, data)) \<and>
   (order \<in> set [''asc'', ''desc''] \<and> list_all (numeric_or_missing ''bmi'') (map snd data) \<longrightarrow>
      (\<exists>result. sort_patients data ''bmi'' order = (Inr result, data) \<and>
         mset result = mset (map snd data) \<and>
         (order = ''asc'' \<longrightarrow> sorted (map (sort_value ''bmi'') result)) \<and>
         (order = ''desc'' \<longrightarrow> sorted (rev (map (sort_value ''bmi'') result))))) \<and>
   (map_of info ''bmi'' = Some (JFloat b) \<longrightarrow> sort_value ''bmi'' info = b) \<and>
   (Patient_init kwargs = Inr p \<longrightarrow>
      rederived (model_dump_exclude_id p) = Some (model_dump_exclude_id p))"
proof (intro conjI impI)
  show "view data = (Inr data, data)" by (simp add: view_def)
next
  assume "map_of data patient_id = Some info"
  then show "view_patient data patient_id = (Inr info, data)" by (simp add: view_patient_def)
next
  assume "order \<in> set [''asc'', ''desc''] \<and> list_all (numeric_or_missing ''bmi'') (map snd data)"
  then have d: "order \<in> set [''asc'', ''desc'']"
    and n: "list_all (numeric_or_missing ''bmi'') (map snd data)" by simp_all
  have s: "''bmi'' \<in> set valid_fields" by (simp add: valid_fields_def)
  let ?result = "list_sort (sort_value ''bmi'') (order = ''desc'') (map snd data)"
  have r: "sort_patients data ''bmi'' order = (Inr ?result, data)"
    using s d n by (rule sort_patients_valid)
  have m: "mset ?result = mset (map snd data)" by (rule list_sort_mset)
  have a: "order = ''asc'' \<longrightarrow> sorted (map (sort_value ''bmi'') ?result)"
  proof
    assume "order = ''asc''"
    then have "(order = ''desc'') = False" by simp
    then show "sorted (map (sort_value ''bmi'') ?result)" by (simp only: list_sort_ascending)
  qed
  have b: "order = ''desc'' \<longrightarrow> sorted (rev (map (sort_value ''bmi'') ?result))"
  proof
    assume "order = ''desc''"
    then have "(order = ''desc'') = True" by simp
    then show "sorted (rev (map (sort_value ''bmi'') ?result))" by (simp only: list_sort_descending)
  qed
  from r m a b
  show "\<exists>result. sort_patients data ''bmi'' order = (Inr result, data) \<and>
         mset result = mset (map snd data) \<and>
         (order = ''asc'' \<longrightarrow> sorted (map (sort_value ''bmi'') result)) \<and>
         (order = ''desc'' \<longrightarrow> sorted (rev (map (sort_value ''bmi'') result)))"
    by (intro exI [of _ ?result] conjI)
next
  assume "map_of info ''bmi'' = Some (JFloat b)"
  then show "sort_value ''bmi'' info = b" by (simp add: sort_value_def)
next
  assume "Patient_init kwargs = Inr p"
  then have "stored_shape (model_dump_exclude_id p)" by (rule stored_shape_dump)
  then show "rederived (model_dump_exclude_id p) = Some (model_dump_exclude_id p)"
    by (simp only: stored_shape_def)
qed

theorem reads_use_stored_values_witness:
  "view stale_data = (Inr stale_data, stale_data) \<and>
   map_of stale_data ''P001'' = Some asha_stale \<and>
   view_patient stale_data ''P001'' = (Inr asha_stale, stale_data) \<and>
   list_all (numeric_or_missing ''bmi'') (map snd stale_data) \<and>
   sort_patients stale_data ''bmi'' ''desc'' = (Inr [asha_stale, dev_100], stale_data) \<and>
   sorted (rev (map (sort_value ''bmi'') [asha_stale, dev_100])) \<and>
   sort_patients stale_data ''bmi'' ''asc'' = (Inr [dev_100, asha_stale], stale_data) \<and>
   sorted (map (sort_value ''bmi'') [dev_100, asha_stale]) \<and>
   map_of asha_stale ''bmi'' = Some (JFloat 99) \<and> sort_value ''bmi'' asha_stale = 99 \<and>
   Patient_init asha_body = Inr asha \<and> model_dump_exclude_id asha = asha_info \<and>
   rederived asha_info = Some asha_info"
proof -
  note t = reads_use_stored_values [where data = stale_data]
  from t have w1: "view stale_data = (Inr stale_data, stale_data)" by (rule conjunct1)
  have m: "map_of stale_data ''P001'' = Some asha_stale" by (simp add: stale_data_def)
  from t [where patient_id = "''P001''" and info = asha_stale] m
  have w2: "view_patient stale_data ''P001'' = (Inr asha_stale, stale_data)" by blast
  have n: "list_all (numeric_or_missing ''bmi'') (map snd stale_data)" by code_simp
  have d: "''desc'' \<in> set [''asc'', ''desc'']" and a: "''asc'' \<in> set [''asc'', ''desc'']"
    by simp_all
  have ed: "sort_patients stale_data ''bmi'' ''desc'' = (Inr [asha_stale, dev_100], stale_data)"
    by code_simp
  have ea: "sort_patients stale_data ''bmi'' ''asc'' = (Inr [dev_100, asha_stale], stale_data)"
    by code_simp
  from t [where order = "''desc''"] d n
  obtain result where r: "sort_patients stale_data ''bmi'' ''desc'' = (Inr result, stale_data)"
    and s: "sorted (rev (map (sort_value ''bmi'') result))" by blast
  from r ed have "result = [asha_stale, dev_100]" by simp
  with s have w3: "sorted (rev (map (sort_value ''bmi'') [asha_stale, dev_100]))" by blast
  from t [where order = "''asc''"] a n
  obtain result' where r': "sort_patients stale_data ''bmi'' ''asc'' = (Inr result', stale_data)"
    and s': "sorted (map (sort_value ''bmi'') result')" by blast
  from r' ea have "result' = [dev_100, asha_stale]" by simp
  with s' have w4: "sorted (map (sort_value ''bmi'') [dev_100, asha_stale])" by blast
  have b: "map_of asha_stale ''bmi'' = Some (JFloat 99)" by code_simp
  from t [where info = asha_stale and b = 99] b
  have w5: "sort_value ''bmi'' asha_stale = 99" by blast
  have i: "Patient_init asha_body = Inr asha" by (rule Patient_init_asha)
  have d: "model_dump_exclude_id asha = asha_info" by (rule model_dump_asha)
  from t [where kwargs = asha_body and p = asha] i
  have "rederived (model_dump_exclude_id asha) = Some (model_dump_exclude_id asha)" by blast
  then have w6: "rederived asha_info = Some asha_info" unfolding d .
  from w1 m w2 n ed w3 ea w4 b w5 i d w6 show ?thesis by (intro conjI)
qed

end
